theory Spec2Isabelle
  imports Main "HOL-Library.Word" "HOL-Library.Multiset"
begin

section \<open>JavaScript strings\<close>

text \<open>
  The prompt and title texts are JavaScript strings: sequences of UTF-16 code units.
  \<open>String.prototype.trim\<close> strips the ECMAScript white space and line terminator code
  units from both ends; \<open>slice(0, n)\<close> keeps the first \<open>n\<close> code units. Identifiers
  (story, segment and operation ids, urls) and the fixed messages are opaque and kept
  as plain strings.
\<close>

type_synonym js_string = "16 word list"

definition js :: "string \<Rightarrow> js_string" where
  "js s = map of_char s"

definition isWhiteSpace :: "16 word \<Rightarrow> bool" where
  "isWhiteSpace c =
     (c \<in> {0x9, 0xA, 0xB, 0xC, 0xD, 0x20, 0xA0, 0x1680, 0x2028, 0x2029,
            0x202F, 0x205F, 0x3000, 0xFEFF}
      \<or> (0x2000 \<le> c \<and> c \<le> 0x200A))"

definition js_trim :: "js_string \<Rightarrow> js_string" where
  "js_trim s = rev (dropWhile isWhiteSpace (rev (dropWhile isWhiteSpace s)))"

definition js_slice :: "nat \<Rightarrow> nat \<Rightarrow> 'a list \<Rightarrow> 'a list" where
  "js_slice start stop s = drop start (take stop s)"

text \<open>
  Truthiness of an optional string (\<open>undefined\<close>, \<open>null\<close> and \<open>''\<close> are falsy) and the
  \<open>||\<close> chain over such values.
\<close>

definition truthy :: "'a list option \<Rightarrow> bool" where
  "truthy v = (case v of None \<Rightarrow> False | Some s \<Rightarrow> s \<noteq> [])"

definition js_or :: "'a list option \<Rightarrow> 'a list option \<Rightarrow> 'a list option" where
  "js_or a b = (if truthy a then a else b)"

definition or_default :: "'a list option \<Rightarrow> 'a list \<Rightarrow> 'a list" where
  "or_default a d = (case a of None \<Rightarrow> d | Some s \<Rightarrow> if s = [] then d else s)"


section \<open>Data: segments, stories, generation data, status payloads\<close>

datatype seg_status = Pending | Generating | Publishing | Completed | Failed

record segment =
  seg_id :: string
  sequence_number :: int
  status :: seg_status
  operation_id :: "string option"
  original_prompt :: js_string
  video_url :: "string option"
  frame_url :: "string option"

text \<open>
  A text field of a JSON object that the code passes on unchecked: absent
  (\<open>undefined\<close>), \<open>null\<close> or a string.
\<close>

datatype js_text = Undefined | Null | Text js_string

record scene =
  scene_id :: string
  scene_sequence :: int
  veo_prompt :: js_text
  visual_description :: "js_string option"

record story_generation =
  gen_id :: "string option"
  gen_title :: "js_string option"
  premise :: "js_string option"
  prompt :: "js_string option"
  scenes :: "scene list"

record story =
  story_id :: string
  title :: js_string
  description :: js_string
  segments :: "segment list"
  final_video_url :: "string option"
  generation_data :: "story_generation option"

text \<open>
  The payload of \<open>GET /generation-status/{operationId}\<close>. The url alternatives that the
  creator page reads with an \<open>||\<close> chain (\<open>video_url\<close>, \<open>public_url\<close>, \<open>output_url\<close>,
  \<open>gcs_url\<close>, \<open>gcs_path\<close>) are kept as one optional url.
\<close>

record generation_status =
  gs_status :: seg_status
  gs_segment_id :: "string option"
  gs_error :: "string option"
  gs_video_url :: "string option"

text \<open>
  A rejected request: \<open>error.response.data.error\<close> and \<open>error.message\<close>, the two fields
  \<open>handleApiError\<close> reads.
\<close>

record js_error =
  response_error :: "string option"
  err_message :: "string option"


section \<open>The reducer of StoryContext\<close>

record app_state =
  stories :: "story list"
  currentStory :: "story option"
  currentStoryGeneration :: "story_generation option"
  loading :: bool
  error :: "string option"
  generationStatus :: "string \<rightharpoonup> generation_status"
  storyGenerationStep :: nat

definition initialState :: app_state where
  "initialState =
     \<lparr>stories = [], currentStory = None, currentStoryGeneration = None, loading = False,
      error = None, generationStatus = Map.empty, storyGenerationStep = 1\<rparr>"

datatype action =
    SET_LOADING bool
  | SET_ERROR string
  | CLEAR_ERROR
  | SET_STORIES "story list"
  | SET_CURRENT_STORY "story option"
  | ADD_STORY story
  | UPDATE_STORY story
  | UPDATE_GENERATION_STATUS string generation_status
  | SET_CURRENT_STORY_GENERATION "story_generation option"
  | SET_STORY_GENERATION_STEP nat
  | UPDATE_STORY_GENERATION "story_generation option"

fun storyReducer :: "app_state \<Rightarrow> action \<Rightarrow> app_state" where
  "storyReducer s (SET_LOADING b) = s\<lparr>loading := b\<rparr>"
| "storyReducer s (SET_ERROR m) = s\<lparr>error := Some m, loading := False\<rparr>"
| "storyReducer s CLEAR_ERROR = s\<lparr>error := None\<rparr>"
| "storyReducer s (SET_STORIES xs) = s\<lparr>stories := xs, loading := False\<rparr>"
| "storyReducer s (SET_CURRENT_STORY x) = s\<lparr>currentStory := x, loading := False\<rparr>"
| "storyReducer s (ADD_STORY x) = s\<lparr>stories := x # stories s, loading := False\<rparr>"
| "storyReducer s (UPDATE_STORY x) =
     s\<lparr>stories := map (\<lambda>y. if story_id y = story_id x then x else y) (stories s),
       currentStory :=
         (case currentStory s of
            None \<Rightarrow> None
          | Some c \<Rightarrow> if story_id c = story_id x then Some x else Some c),
       loading := False\<rparr>"
| "storyReducer s (UPDATE_GENERATION_STATUS opId st) =
     s\<lparr>generationStatus := (generationStatus s)(opId \<mapsto> st)\<rparr>"
| "storyReducer s (SET_CURRENT_STORY_GENERATION g) =
     s\<lparr>currentStoryGeneration := g, loading := False\<rparr>"
| "storyReducer s (SET_STORY_GENERATION_STEP n) = s\<lparr>storyGenerationStep := n\<rparr>"
| "storyReducer s (UPDATE_STORY_GENERATION g) =
     s\<lparr>currentStoryGeneration := g, loading := False\<rparr>"


section \<open>The provider: reducer state, active polls, timers, effects\<close>

text \<open>
  \<open>StoryContext.js\<close> holds two versions of the provider. The one modelled is the first,
  with the story-generation flow; the second has the same \<open>stitchStory\<close>,
  \<open>startStatusPolling\<close> and \<open>resumePollingForStory\<close>, a \<open>loadStory\<close> that does not
  hydrate generation data and a \<open>generateVideoSegment\<close> without \<open>options\<close>.

  What the provider owns besides the reducer state: the set \<open>activePollsRef.current\<close>,
  the timers it has registered and the effects it has had on the outside (requests sent,
  toasts shown, console errors), in order. A poller is a live \<open>setInterval\<close> handle
  together with what its callback closes over: the operation id and the current story of
  the render that started it. A pending timeout names the interval handle it will clear.
  What the server answers is a parameter of each function that awaits a request.
\<close>

datatype request =
    GET_story string
  | POST_stories js_string js_string string
  | POST_generate string js_string bool "int option" "string option"
  | POST_stitch string
  | GET_generation_status string
  | PUT_generation string story_generation
  | POST_stories_generate js_string nat nat

datatype effect =
    Request request
  | ToastSuccess string
  | ToastError string
  | ConsoleError string
  | Navigate string

record poller =
  timer :: nat
  poll_op :: string
  closure_story :: "string option"
  period_ms :: nat

record pending_timeout =
  clears :: nat
  timeout_op :: string
  delay_ms :: nat

record provider =
  state :: app_state
  activePolls :: "string set"
  intervals :: "poller list"
  timeouts :: "pending_timeout list"
  nextTimer :: nat
  effects :: "effect list"

definition initialProvider :: provider where
  "initialProvider =
     \<lparr>state = initialState, activePolls = {}, intervals = [], timeouts = [],
      nextTimer = 0, effects = []\<rparr>"

definition dispatch :: "action \<Rightarrow> provider \<Rightarrow> provider" where
  "dispatch a ctx = ctx\<lparr>state := storyReducer (state ctx) a\<rparr>"

definition emit :: "effect \<Rightarrow> provider \<Rightarrow> provider" where
  "emit e ctx = ctx\<lparr>effects := effects ctx @ [e]\<rparr>"

definition handleApiError :: "js_error \<Rightarrow> string \<Rightarrow> provider \<Rightarrow> provider" where
  "handleApiError err defaultMessage ctx =
     (let message = or_default (js_or (response_error err) (err_message err)) defaultMessage
      in emit (ToastError message) (dispatch (SET_ERROR message) ctx))"


subsection \<open>Status polling\<close>

definition clearInterval :: "nat \<Rightarrow> provider \<Rightarrow> provider" where
  "clearInterval h ctx = ctx\<lparr>intervals := filter (\<lambda>p. timer p \<noteq> h) (intervals ctx)\<rparr>"

definition activePolls_delete :: "string \<Rightarrow> provider \<Rightarrow> provider" where
  "activePolls_delete opId ctx = ctx\<lparr>activePolls := activePolls ctx - {opId}\<rparr>"

definition startStatusPolling :: "app_state \<Rightarrow> string \<Rightarrow> provider \<Rightarrow> provider" where
  "startStatusPolling view operationId ctx =
     (if operationId \<in> activePolls ctx then ctx
      else ctx\<lparr>activePolls := insert operationId (activePolls ctx),
               intervals := intervals ctx @
                 [\<lparr>timer = nextTimer ctx, poll_op = operationId,
                   closure_story = map_option story_id (currentStory view),
                   period_ms = 15000\<rparr>],
               timeouts := timeouts ctx @
                 [\<lparr>clears = nextTimer ctx, timeout_op = operationId, delay_ms = 600000\<rparr>],
               nextTimer := nextTimer ctx + 1\<rparr>)"

definition loadStory_begin :: "string \<Rightarrow> provider \<Rightarrow> provider" where
  "loadStory_begin storyId ctx =
     emit (Request (GET_story storyId)) (dispatch CLEAR_ERROR (dispatch (SET_LOADING True) ctx))"

text \<open>
  The interval callback of \<open>startStatusPolling\<close> is asynchronous: it sends the status
  request (\<open>pollRequest\<close>) and continues when the answer arrives (\<open>pollAnswer\<close>), also
  when the interval has been cleared in between. On \<open>completed\<close> it starts a reload of
  the story its closure saw, without awaiting it. \<open>pollCallback\<close> is the callback with
  the answer arriving at once.
\<close>

definition pollRequest :: "poller \<Rightarrow> provider \<Rightarrow> provider" where
  "pollRequest p ctx = emit (Request (GET_generation_status (poll_op p))) ctx"

definition pollAnswer :: "poller \<Rightarrow> js_error + generation_status \<Rightarrow> provider \<Rightarrow> provider" where
  "pollAnswer p resp ctx =
     (case resp of
        Inl err \<Rightarrow>
          activePolls_delete (poll_op p)
            (clearInterval (timer p) (emit (ConsoleError ''Status polling error:'') ctx))
      | Inr st \<Rightarrow>
          (let ctx2 = dispatch (UPDATE_GENERATION_STATUS (poll_op p) st) ctx in
           if gs_status st = Completed then
             (let ctx3 = emit (ToastSuccess ''Video generation completed!'')
                           (activePolls_delete (poll_op p) (clearInterval (timer p) ctx2))
              in case closure_story p of
                   None \<Rightarrow> ctx3
                 | Some sid \<Rightarrow> if truthy (gs_segment_id st) then loadStory_begin sid ctx3 else ctx3)
           else if gs_status st = Failed then
             emit (ToastError (''Video generation failed: '' @ or_default (gs_error st) ''Unknown error''))
               (activePolls_delete (poll_op p) (clearInterval (timer p) ctx2))
           else ctx2))"

definition pollCallback :: "poller \<Rightarrow> js_error + generation_status \<Rightarrow> provider \<Rightarrow> provider" where
  "pollCallback p resp ctx = pollAnswer p resp (pollRequest p ctx)"

text \<open>The callback of the \<open>setTimeout\<close> registered by \<open>startStatusPolling\<close>.\<close>

definition timeoutCallback :: "pending_timeout \<Rightarrow> provider \<Rightarrow> provider" where
  "timeoutCallback t ctx = activePolls_delete (timeout_op t) (clearInterval (clears t) ctx)"

text \<open>
  The timer events: a live interval fires (a cleared one never does), a pending timeout
  fires once. \<open>intervalFires\<close> is a firing whose request is answered at once,
  \<open>intervalAsks\<close> a firing whose answer is still to come.
\<close>

definition intervalFires :: "nat \<Rightarrow> js_error + generation_status \<Rightarrow> provider \<Rightarrow> provider" where
  "intervalFires h resp ctx =
     (case find (\<lambda>p. timer p = h) (intervals ctx) of
        None \<Rightarrow> ctx
      | Some p \<Rightarrow> pollCallback p resp ctx)"

definition intervalAsks :: "nat \<Rightarrow> provider \<Rightarrow> provider" where
  "intervalAsks h ctx =
     (case find (\<lambda>p. timer p = h) (intervals ctx) of
        None \<Rightarrow> ctx
      | Some p \<Rightarrow> pollRequest p ctx)"

definition timeoutFires :: "nat \<Rightarrow> provider \<Rightarrow> provider" where
  "timeoutFires h ctx =
     (case find (\<lambda>t. clears t = h) (timeouts ctx) of
        None \<Rightarrow> ctx
      | Some t \<Rightarrow>
          timeoutCallback t (ctx\<lparr>timeouts := filter (\<lambda>t. clears t \<noteq> h) (timeouts ctx)\<rparr>))"

definition resumable :: "segment \<Rightarrow> bool" where
  "resumable seg =
     ((status seg = Generating \<or> status seg = Publishing) \<and> truthy (operation_id seg))"

definition resumePollingForStory :: "app_state \<Rightarrow> story \<Rightarrow> provider \<Rightarrow> provider" where
  "resumePollingForStory view st ctx =
     fold (\<lambda>seg c. case operation_id seg of
                      None \<Rightarrow> c
                    | Some opId \<Rightarrow> startStatusPolling view opId c)
          (filter resumable (segments st)) ctx"


subsection \<open>The actions\<close>

definition loadStory_end :: "app_state \<Rightarrow> js_error + story \<Rightarrow> provider \<Rightarrow> (js_error + story) \<times> provider" where
  "loadStory_end view resp ctx =
     (case resp of
        Inl err \<Rightarrow> (Inl err, handleApiError err ''Failed to load story'' ctx)
      | Inr d \<Rightarrow>
          (let ctx1 = dispatch (SET_CURRENT_STORY (Some d)) ctx;
               ctx2 = (case generation_data d of
                         None \<Rightarrow> ctx1
                       | Some g \<Rightarrow> dispatch (SET_CURRENT_STORY_GENERATION (Some g)) ctx1)
           in (Inr d, resumePollingForStory view d ctx2)))"

definition loadStory :: "app_state \<Rightarrow> string \<Rightarrow> js_error + story \<Rightarrow> provider \<Rightarrow> (js_error + story) \<times> provider" where
  "loadStory view storyId resp ctx = loadStory_end view resp (loadStory_begin storyId ctx)"

definition createStory :: "js_string \<Rightarrow> js_string \<Rightarrow> string \<Rightarrow> js_error + story \<Rightarrow> provider \<Rightarrow> (js_error + story) \<times> provider" where
  "createStory ttl descr userId resp ctx =
     (let ctx1 = emit (Request (POST_stories ttl descr userId))
                   (dispatch CLEAR_ERROR (dispatch (SET_LOADING True) ctx))
      in case resp of
           Inl err \<Rightarrow> (Inl err, handleApiError err ''Failed to create story'' ctx1)
         | Inr d \<Rightarrow>
             (Inr d, emit (ToastSuccess ''Story created successfully!'') (dispatch (ADD_STORY d) ctx1)))"

text \<open>The \<open>options\<close> object of \<open>generateVideoSegment\<close> and \<open>createStoryFromGeneration\<close>.\<close>

record options =
  silent :: bool
  targetSequence :: "int option"
  preserveWizard :: bool

definition no_options :: options where
  "no_options = \<lparr>silent = False, targetSequence = None, preserveWizard = False\<rparr>"

record generate_response =
  resp_operation_id :: string

definition generateVideoSegment ::
  "app_state \<Rightarrow> string \<Rightarrow> js_string \<Rightarrow> string option \<Rightarrow> bool \<Rightarrow> options \<Rightarrow>
   js_error + generate_response \<Rightarrow> provider \<Rightarrow> (js_error + generate_response) \<times> provider" where
  "generateVideoSegment view storyId prmpt imageFile usePreviousFrame opts resp ctx =
     (let ctx1 = dispatch CLEAR_ERROR (if silent opts then ctx else dispatch (SET_LOADING True) ctx);
          ctx2 = emit (Request (POST_generate storyId prmpt usePreviousFrame
                                  (targetSequence opts) imageFile)) ctx1
      in case resp of
           Inl err \<Rightarrow> (Inl err, handleApiError err ''Failed to start video generation'' ctx2)
         | Inr d \<Rightarrow>
             (let ctx3 = emit (ToastSuccess ''Video generation started!'')
                           (startStatusPolling view (resp_operation_id d) ctx2)
              in (Inr d, if silent opts then ctx3 else dispatch (SET_LOADING False) ctx3)))"

text \<open>
  \<open>stitchStory\<close> awaits the stitch request and then the reload of the story; the second
  answer is only consulted when the first is a success.
\<close>

definition stitchStory ::
  "app_state \<Rightarrow> string \<Rightarrow> js_error + string \<Rightarrow> js_error + story \<Rightarrow> provider \<Rightarrow>
   (js_error + string) \<times> provider" where
  "stitchStory view storyId resp reload ctx =
     (let ctx1 = emit (Request (POST_stitch storyId))
                   (dispatch CLEAR_ERROR (dispatch (SET_LOADING True) ctx))
      in case resp of
           Inl err \<Rightarrow> (Inl err, handleApiError err ''Failed to stitch story'' ctx1)
         | Inr d \<Rightarrow>
             (case loadStory view storyId reload ctx1 of
                (Inl err, ctx2) \<Rightarrow> (Inl err, handleApiError err ''Failed to stitch story'' ctx2)
              | (Inr s, ctx2) \<Rightarrow> (Inr d, emit (ToastSuccess ''Story stitched successfully!'') ctx2)))"

definition setStoryGenerationStep :: "nat \<Rightarrow> provider \<Rightarrow> provider" where
  "setStoryGenerationStep n ctx = dispatch (SET_STORY_GENERATION_STEP n) ctx"

definition generateStoryFromPrompt ::
  "js_string \<Rightarrow> nat \<Rightarrow> nat \<Rightarrow> js_error + story_generation \<Rightarrow> provider \<Rightarrow>
   (js_error + story_generation) \<times> provider" where
  "generateStoryFromPrompt prmpt total_seconds scene_seconds resp ctx =
     (let ctx1 = emit (Request (POST_stories_generate prmpt total_seconds scene_seconds))
                   (dispatch CLEAR_ERROR (dispatch (SET_LOADING True) ctx))
      in case resp of
           Inl err \<Rightarrow> (Inl err, handleApiError err ''Failed to generate story'' ctx1)
         | Inr d \<Rightarrow>
             (Inr d, emit (ToastSuccess ''Story generated successfully!'')
                       (dispatch (SET_STORY_GENERATION_STEP 3)
                          (dispatch (SET_CURRENT_STORY_GENERATION (Some d)) ctx1))))"

text \<open>
  \<open>createStoryFromGeneration\<close>: the title it passes to \<open>createStory\<close> is computed first
  (with optional chaining, so also for a missing generation object); the description
  \<open>storyGeneration.premise || ''\<close> is read without optional chaining and throws a
  \<open>TypeError\<close> on \<open>null\<close>, whose message text is the engine's (the one given is
  V8's). An error of the inner
  \<open>try\<close> (saving the generation data, then reloading the story) is logged and dropped.
\<close>

definition rawTitle :: "story_generation option \<Rightarrow> js_string" where
  "rawTitle storyGeneration =
     js_trim (or_default (case storyGeneration of None \<Rightarrow> None | Some g \<Rightarrow> gen_title g) [])"

definition fallbackTitle :: "story_generation option \<Rightarrow> js_string" where
  "fallbackTitle storyGeneration =
     (if rawTitle storyGeneration \<noteq> [] then rawTitle storyGeneration
      else js_slice 0 60
             (or_default
                (js_or (case storyGeneration of None \<Rightarrow> None | Some g \<Rightarrow> premise g)
                       (case storyGeneration of None \<Rightarrow> None | Some g \<Rightarrow> prompt g))
                (js ''Untitled Story'')))"

definition nullTypeError :: js_error where
  "nullTypeError =
     \<lparr>response_error = None,
      err_message = Some ''Cannot read properties of null (reading 'premise')''\<rparr>"

definition createStoryFromGeneration ::
  "app_state \<Rightarrow> story_generation option \<Rightarrow> string \<Rightarrow> options \<Rightarrow>
   js_error + story \<Rightarrow> js_error + unit \<Rightarrow> js_error + story \<Rightarrow> provider \<Rightarrow>
   (js_error + story) \<times> provider" where
  "createStoryFromGeneration view storyGeneration userId opts created saved reloaded ctx =
     (let ctx1 = dispatch CLEAR_ERROR (if silent opts then ctx else dispatch (SET_LOADING True) ctx)
      in case storyGeneration of
           None \<Rightarrow> (Inl nullTypeError, handleApiError nullTypeError ''Failed to create story'' ctx1)
         | Some g \<Rightarrow>
             (case createStory (fallbackTitle storyGeneration) (or_default (premise g) []) userId
                     created ctx1 of
                (Inl err, ctx2) \<Rightarrow> (Inl err, handleApiError err ''Failed to create story'' ctx2)
              | (Inr st, ctx2) \<Rightarrow>
                  (let ctx3 = emit (Request (PUT_generation (story_id st) g)) ctx2;
                       ctx4 = (case saved of
                                 Inl err \<Rightarrow>
                                   emit (ConsoleError ''Failed to persist story generation data'') ctx3
                               | Inr u \<Rightarrow>
                                   (case loadStory view (story_id st) reloaded ctx3 of
                                      (Inl err, c) \<Rightarrow>
                                        emit (ConsoleError ''Failed to persist story generation data'') c
                                    | (Inr s, c) \<Rightarrow> c));
                       ctx5 = (if preserveWizard opts then ctx4
                               else dispatch (SET_STORY_GENERATION_STEP 1)
                                      (dispatch (SET_CURRENT_STORY_GENERATION None) ctx4));
                       ctx6 = (if \<not> preserveWizard opts \<and> \<not> silent opts
                               then emit (ToastSuccess ''Story created successfully!'') ctx5
                               else ctx5)
                   in (Inr st, ctx6))))"


section \<open>StoryViewPage\<close>

record view_page =
  newPrompt :: js_string
  showAddSegment :: bool
  isStitching :: bool

text \<open>
  \<open>handleAddSegment\<close> always asks for the previous frame. The reload after a success is
  started and not awaited.
\<close>

definition handleAddSegment ::
  "app_state \<Rightarrow> string \<Rightarrow> js_error + generate_response \<Rightarrow> view_page \<Rightarrow> provider \<Rightarrow>
   view_page \<times> provider" where
  "handleAddSegment view storyId resp pg ctx =
     (if js_trim (newPrompt pg) = []
      then (pg, emit (ToastError ''Please enter a prompt for the new segment'') ctx)
      else case generateVideoSegment view storyId (newPrompt pg) None True no_options resp ctx of
             (Inl err, ctx1) \<Rightarrow> (pg, emit (ConsoleError ''Error adding segment:'') ctx1)
           | (Inr d, ctx1) \<Rightarrow>
               (pg\<lparr>newPrompt := [], showAddSegment := False\<rparr>, loadStory_begin storyId ctx1))"

definition handleStitchStory ::
  "app_state \<Rightarrow> string \<Rightarrow> js_error + string \<Rightarrow> js_error + story \<Rightarrow> view_page \<Rightarrow> provider \<Rightarrow>
   view_page \<times> provider" where
  "handleStitchStory view storyId resp reload pg ctx =
     (case stitchStory view storyId resp reload ctx of
        (Inl err, ctx1) \<Rightarrow> (pg\<lparr>isStitching := False\<rparr>, emit (ConsoleError ''Error stitching story:'') ctx1)
      | (Inr d, ctx1) \<Rightarrow> (pg\<lparr>isStitching := False\<rparr>, ctx1))"

definition completedSegments :: "story option \<Rightarrow> segment list" where
  "completedSegments cs =
     (case cs of None \<Rightarrow> [] | Some s \<Rightarrow> filter (\<lambda>x. status x = Completed) (segments s))"

definition canStitch :: "story option \<Rightarrow> bool" where
  "canStitch cs =
     (length (completedSegments cs) > 0
      \<and> \<not> truthy (case cs of None \<Rightarrow> None | Some s \<Rightarrow> final_video_url s))"

text \<open>
  The segment list as the page renders it:
  \<open>currentStory.segments.sort((a, b) => a.sequence_number - b.sequence_number)\<close>. The
  comparator is a consistent order on integers and \<open>Array.prototype.sort\<close> is stable, so
  the result is the stable sort by the key.
\<close>

definition segmentsInOrder :: "story \<Rightarrow> segment list" where
  "segmentsInOrder s = sort_key sequence_number (segments s)"


section \<open>StoryCreatorPage\<close>

record creator_page =
  storyPrompt :: js_string
  targetDurationSeconds :: nat
  cardGeneratingById :: "string \<rightharpoonup> bool"
  sceneOpById :: "(string \<times> string) list"
  sceneVideoById :: "string \<rightharpoonup> string"
  sceneProgressById :: "string \<rightharpoonup> nat"
  sceneLastUpdateById :: "string \<rightharpoonup> nat"

definition handlePromptSubmit ::
  "js_error + story_generation \<Rightarrow> creator_page \<Rightarrow> provider \<Rightarrow> provider" where
  "handlePromptSubmit resp pg ctx =
     (if js_trim (storyPrompt pg) = []
      then emit (ToastError ''Please enter a story prompt'') ctx
      else case generateStoryFromPrompt (storyPrompt pg) (targetDurationSeconds pg) 8 resp
                  (setStoryGenerationStep 2 ctx) of
             (Inl err, ctx1) \<Rightarrow>
               setStoryGenerationStep 1 (emit (ConsoleError ''Error generating story:'') ctx1)
           | (Inr d, ctx1) \<Rightarrow> ctx1)"

text \<open>
  The effect that reflects operation statuses on the storyboard cards (it runs whenever
  \<open>generationStatus\<close>, \<open>currentStory\<close> or \<open>sceneOpById\<close> changes), for one entry of
  \<open>sceneOpById\<close> and then for all of them. \<open>now\<close> is \<open>Date.now()\<close>.
\<close>

definition segmentUrl :: "story option \<Rightarrow> string \<Rightarrow> string option" where
  "segmentUrl cs segId =
     (case cs of
        None \<Rightarrow> None
      | Some s \<Rightarrow>
          (case find (\<lambda>x. seg_id x = segId) (segments s) of
             None \<Rightarrow> None
           | Some seg \<Rightarrow> if truthy (video_url seg) then video_url seg else None))"

definition sceneStatusStep ::
  "(string \<rightharpoonup> generation_status) \<Rightarrow> story option \<Rightarrow> nat \<Rightarrow> string \<times> string \<Rightarrow>
   creator_page \<Rightarrow> creator_page" where
  "sceneStatusStep gs cs now entry pg =
     (case gs (snd entry) of
        None \<Rightarrow> pg
      | Some st \<Rightarrow>
          (let sceneId = fst entry;
               pg1 = pg\<lparr>sceneLastUpdateById := (sceneLastUpdateById pg)(sceneId \<mapsto> now)\<rparr>;
               pg2 = (if gs_status st = Failed
                      then pg1\<lparr>cardGeneratingById := (cardGeneratingById pg1)(sceneId \<mapsto> False)\<rparr>
                      else pg1)
           in if gs_status st = Completed then
                (let pg3 = pg2\<lparr>sceneProgressById := (sceneProgressById pg2)(sceneId \<mapsto> 100),
                               cardGeneratingById := (cardGeneratingById pg2)(sceneId \<mapsto> False)\<rparr>
                 in if truthy (gs_video_url st)
                    then pg3\<lparr>sceneVideoById := (sceneVideoById pg3)(sceneId := gs_video_url st)\<rparr>
                    else (case gs_segment_id st of
                            None \<Rightarrow> pg3
                          | Some segId \<Rightarrow>
                              (case (if segId = [] then None else segmentUrl cs segId) of
                                 None \<Rightarrow> pg3
                               | Some url \<Rightarrow>
                                   pg3\<lparr>sceneVideoById := (sceneVideoById pg3)(sceneId \<mapsto> url)\<rparr>)))
              else if gs_status st = Generating \<or> gs_status st = Publishing then
                (let current = (case sceneProgressById pg2 sceneId of
                                  None \<Rightarrow> 10
                                | Some v \<Rightarrow> if v = 0 then 10 else v)
                 in pg2\<lparr>sceneProgressById := (sceneProgressById pg2)(sceneId \<mapsto> min 90 (current + 12))\<rparr>)
              else pg2))"

definition sceneStatusEffect ::
  "(string \<rightharpoonup> generation_status) \<Rightarrow> story option \<Rightarrow> nat \<Rightarrow> creator_page \<Rightarrow> creator_page" where
  "sceneStatusEffect gs cs now pg = fold (sceneStatusStep gs cs now) (sceneOpById pg) pg"

text \<open>
  \<open>handleCreateVideos\<close>. In \<open>whole\<close> mode the loop awaits one \<open>generateVideoSegment\<close>
  per scene, asking for the previous frame from the second scene on; \<open>answers i\<close> is what
  the server answers to the request for scene \<open>i\<close>. The first rejected request ends the
  loop in the handler's \<open>catch\<close>. \<open>FormData.append\<close> writes a value that is not a
  string as its string conversion: a scene without \<open>veo_prompt\<close> is sent as the text
  \<open>undefined\<close>, one whose \<open>veo_prompt\<close> is \<open>null\<close> as the text \<open>null\<close>. \<open>currentStory\<close> and
  \<open>currentStoryGeneration\<close> are those of the render the handler belongs to.
\<close>

datatype create_mode = Whole | SceneByScene

fun promptField :: "js_text \<Rightarrow> js_string" where
  "promptField Undefined = js ''undefined''"
| "promptField Null = js ''null''"
| "promptField (Text x) = x"

fun generateAllScenes ::
  "app_state \<Rightarrow> string \<Rightarrow> nat \<Rightarrow> scene list \<Rightarrow> (nat \<Rightarrow> js_error + generate_response) \<Rightarrow>
   provider \<Rightarrow> (js_error + unit) \<times> provider" where
  "generateAllScenes view storyId i [] answers ctx = (Inr (), ctx)"
| "generateAllScenes view storyId i (sc # rest) answers ctx =
     (case generateVideoSegment view storyId (promptField (veo_prompt sc)) None (0 < i)
             no_options (answers i) ctx of
        (Inl err, ctx1) \<Rightarrow> (Inl err, ctx1)
      | (Inr d, ctx1) \<Rightarrow> generateAllScenes view storyId (Suc i) rest answers ctx1)"

definition handleCreateVideos ::
  "create_mode \<Rightarrow> app_state \<Rightarrow> js_error + story \<Rightarrow> js_error + unit \<Rightarrow> js_error + story \<Rightarrow>
   (nat \<Rightarrow> js_error + generate_response) \<Rightarrow> provider \<Rightarrow> provider" where
  "handleCreateVideos mode view created saved reloaded answers ctx =
     (case (case currentStory view of
              None \<Rightarrow>
                createStoryFromGeneration view (currentStoryGeneration view) ''anonymous''
                  no_options created saved reloaded ctx
            | Some s \<Rightarrow>
                if story_id s \<noteq> [] then (Inr s, ctx)
                else createStoryFromGeneration view (currentStoryGeneration view) ''anonymous''
                       no_options created saved reloaded ctx) of
        (Inl err, ctx1) \<Rightarrow> emit (ConsoleError ''Error creating videos:'') ctx1
      | (Inr st, ctx1) \<Rightarrow>
          (case mode of
             SceneByScene \<Rightarrow> emit (Navigate (''/story/'' @ story_id st @ ''?mode=scene-by-scene'')) ctx1
           | Whole \<Rightarrow>
               (case currentStoryGeneration view of
                  None \<Rightarrow> emit (ConsoleError ''Error creating videos:'') ctx1
                | Some g \<Rightarrow>
                    (case generateAllScenes view (story_id st) 0 (scenes g) answers ctx1 of
                       (Inl err, ctx2) \<Rightarrow> emit (ConsoleError ''Error creating videos:'') ctx2
                     | (Inr u, ctx2) \<Rightarrow> emit (Navigate (''/story/'' @ story_id st)) ctx2))))"


section \<open>Runs of the provider\<close>

text \<open>
  What happens to a provider over time: an action or a page handler is called and the
  requests it awaits are answered; a reload that is not awaited starts, and its answer
  arrives; a live interval fires, with its status request answered at once or later (the
  answer then finds whatever has happened in between); a pending timeout fires. \<open>run\<close>
  applies a list of such events in order. An answer is not tied to an earlier firing, so
  the runs include every interleaving the timers and the network can produce.
\<close>

datatype event =
    Generate app_state string js_string "string option" bool options "js_error + generate_response"
  | Load app_state string "js_error + story"
  | LoadStarts string
  | StoryLoaded app_state "js_error + story"
  | Stitch app_state string "js_error + string" "js_error + story"
  | Create js_string js_string string "js_error + story"
  | CreateFromGeneration app_state "story_generation option" string options
      "js_error + story" "js_error + unit" "js_error + story"
  | GenerateStory js_string nat nat "js_error + story_generation"
  | AddSegment app_state string "js_error + generate_response" view_page
  | CreateVideos create_mode app_state "js_error + story" "js_error + unit" "js_error + story"
      "nat \<Rightarrow> js_error + generate_response"
  | PromptSubmit "js_error + story_generation" creator_page
  | IntervalFires nat "js_error + generation_status"
  | IntervalAsks nat
  | StatusAnswered poller "js_error + generation_status"
  | TimeoutFires nat

fun step :: "event \<Rightarrow> provider \<Rightarrow> provider" where
  "step (Generate view storyId prmpt img usePrev opts resp) ctx =
     snd (generateVideoSegment view storyId prmpt img usePrev opts resp ctx)"
| "step (Load view storyId resp) ctx = snd (loadStory view storyId resp ctx)"
| "step (LoadStarts storyId) ctx = loadStory_begin storyId ctx"
| "step (StoryLoaded view resp) ctx = snd (loadStory_end view resp ctx)"
| "step (Stitch view storyId resp reload) ctx = snd (stitchStory view storyId resp reload ctx)"
| "step (Create ttl descr userId resp) ctx = snd (createStory ttl descr userId resp ctx)"
| "step (CreateFromGeneration view g userId opts created saved reloaded) ctx =
     snd (createStoryFromGeneration view g userId opts created saved reloaded ctx)"
| "step (GenerateStory prmpt total_seconds scene_seconds resp) ctx =
     snd (generateStoryFromPrompt prmpt total_seconds scene_seconds resp ctx)"
| "step (AddSegment view storyId resp pg) ctx = snd (handleAddSegment view storyId resp pg ctx)"
| "step (CreateVideos mode view created saved reloaded answers) ctx =
     handleCreateVideos mode view created saved reloaded answers ctx"
| "step (PromptSubmit resp pg) ctx = handlePromptSubmit resp pg ctx"
| "step (IntervalFires h resp) ctx = intervalFires h resp ctx"
| "step (IntervalAsks h) ctx = intervalAsks h ctx"
| "step (StatusAnswered p resp) ctx = pollAnswer p resp ctx"
| "step (TimeoutFires h) ctx = timeoutFires h ctx"

definition run :: "event list \<Rightarrow> provider \<Rightarrow> provider" where
  "run evs ctx = fold step evs ctx"

text \<open>The effects a call added, and the requests among a list of effects.\<close>

definition since :: "provider \<Rightarrow> provider \<Rightarrow> effect list" where
  "since ctx ctx' = drop (length (effects ctx)) (effects ctx')"

definition requests :: "effect list \<Rightarrow> request list" where
  "requests es = concat (map (\<lambda>e. case e of Request r \<Rightarrow> [r] | _ \<Rightarrow> []) es)"



definition pollersOf :: "string \<Rightarrow> provider \<Rightarrow> poller list" where
  "pollersOf opId ctx = filter (\<lambda>p. poll_op p = opId) (intervals ctx)"

text \<open>
  The shape of the timers that \<open>startStatusPolling\<close> registers: every live poller has
  period 15000 and a handle below the next one, and its timeout, of delay 600000 and for
  the same operation, is still pending.
\<close>

definition timers_ok :: "provider \<Rightarrow> bool" where
  "timers_ok ctx =
     ((\<forall>p\<in>set (intervals ctx).
          timer p < nextTimer ctx \<and> period_ms p = 15000
          \<and> (\<exists>t\<in>set (timeouts ctx). clears t = timer p))
      \<and> (\<forall>t\<in>set (timeouts ctx).
            clears t < nextTimer ctx \<and> delay_ms t = 600000
            \<and> (\<forall>p\<in>set (intervals ctx). timer p = clears t \<longrightarrow> poll_op p = timeout_op t)))"


section \<open>The backend, modelled from the specification\<close>

text \<open>
  Modelled from the spec: the Flask backend that answers \<open>POST /stories/{id}/generate\<close>
  and \<open>POST /stories/{id}/stitch\<close> is not among the sources; only its callers are.
  The error taxonomy is that of section 7 of the specification.
\<close>

datatype validation = EmptyPrompt | EmptySegmentList | PriorSegmentNotCompleted

datatype orchestrator_error =
    ValidationError validation
  | NoPriorSegment
  | NotReady int
  | IOFailure

type_synonym bytes = "8 word list"

text \<open>
  Modelled from the spec: \<open>Segment Store.append\<close> (section 4.3) is missing. It allocates
  the next sequence number (max existing + 1, or 1 if none) and creates the segment in
  \<open>pending\<close>.
\<close>

definition nextSequence :: "segment list \<Rightarrow> int" where
  "nextSequence segs = (if segs = [] then 1 else Max (set (map sequence_number segs)) + 1)"

definition store_append :: "story \<Rightarrow> js_string \<Rightarrow> string \<Rightarrow> segment" where
  "store_append st prmpt newId =
     \<lparr>seg_id = newId, sequence_number = nextSequence (segments st), status = Pending,
      operation_id = None, original_prompt = prmpt, video_url = None, frame_url = None\<rparr>"

text \<open>
  Modelled from the spec: the most recent segment of a story (section 5), the one with the
  highest sequence number; \<open>Segment Store.list\<close> (section 4.3) orders by sequence number
  ascending.
\<close>

definition latestSegment :: "story \<Rightarrow> segment" where
  "latestSegment st = last (sort_key sequence_number (segments st))"

text \<open>
  Modelled from the spec: \<open>Story Orchestrator.addSegment\<close> (sections 4.5, 5 and 7) is
  missing. An empty prompt is a validation error; with \<open>usePreviousFrame\<close> the request
  is refused with \<open>NoPriorSegment\<close> when the story has no segment and with a validation
  error while the most recent segment is not yet \<open>completed\<close>, otherwise the seed is the
  continuity frame of that segment; without it the seed is the caller's image. The segment
  is appended, submitted (\<open>opId\<close> is the identifier the generation service returns; the
  operation records the submission parameters of section 3) and moved to \<open>generating\<close>.
  A refusal leaves the story as it was.
\<close>

record generation_operation =
  op_id :: string
  op_segment :: string
  op_prompt :: js_string
  op_seed :: "string option"
  op_use_previous_frame :: bool

definition addSegment ::
  "story \<Rightarrow> js_string \<Rightarrow> string option \<Rightarrow> bool \<Rightarrow> string \<Rightarrow> string \<Rightarrow>
   (orchestrator_error + generation_operation) \<times> story" where
  "addSegment st prmpt seedImage usePreviousFrame newId opId =
     (if js_trim prmpt = [] then (Inl (ValidationError EmptyPrompt), st)
      else if usePreviousFrame \<and> segments st = [] then (Inl NoPriorSegment, st)
      else if usePreviousFrame \<and> status (latestSegment st) \<noteq> Completed
        then (Inl (ValidationError PriorSegmentNotCompleted), st)
      else (Inr \<lparr>op_id = opId, op_segment = newId, op_prompt = prmpt,
                 op_seed = (if usePreviousFrame then frame_url (latestSegment st) else seedImage),
                 op_use_previous_frame = usePreviousFrame\<rparr>,
            st\<lparr>segments := segments st @
                 [(store_append st prmpt newId)
                    \<lparr>status := Generating, operation_id := Some opId\<rparr>]\<rparr>))"

text \<open>
  Modelled from the spec: \<open>Stitcher.stitch\<close> (section 4.4) is missing. It loads the
  segments in sequence order, refuses an empty list, refuses with \<open>NotReady\<close> naming the
  first segment that is not \<open>completed\<close>, fetches the videos in order, concatenates them,
  persists the result and records its location on the story, overwriting the prior one.
  \<open>fetch\<close> and \<open>put\<close> are the durable blob storage; a failure of either aborts and
  leaves the story as it was.
\<close>

fun fetch_all :: "(string \<Rightarrow> bytes option) \<Rightarrow> segment list \<Rightarrow> bytes list option" where
  "fetch_all fetch [] = Some []"
| "fetch_all fetch (x # xs) =
     (case video_url x of
        None \<Rightarrow> None
      | Some u \<Rightarrow>
          (case fetch u of
             None \<Rightarrow> None
           | Some b \<Rightarrow> map_option ((#) b) (fetch_all fetch xs)))"

definition stitch ::
  "(string \<Rightarrow> bytes option) \<Rightarrow> (bytes \<Rightarrow> string option) \<Rightarrow> story \<Rightarrow>
   (orchestrator_error + string) \<times> story" where
  "stitch fetch put st =
     (let segs = sort_key sequence_number (segments st) in
      if segs = [] then (Inl (ValidationError EmptySegmentList), st)
      else case find (\<lambda>x. status x \<noteq> Completed) segs of
             Some b \<Rightarrow> (Inl (NotReady (sequence_number b)), st)
           | None \<Rightarrow>
               (case fetch_all fetch segs of
                  None \<Rightarrow> (Inl IOFailure, st)
                | Some videos \<Rightarrow>
                    (case put (concat videos) of
                       None \<Rightarrow> (Inl IOFailure, st)
                     | Some loc \<Rightarrow> (Inr loc, st\<lparr>final_video_url := Some loc\<rparr>))))"

text \<open>
  Modelled from the spec: how the missing HTTP layer hands an orchestrator error to the
  client. The error's name travels as \<open>response.data.error\<close>, the field
  \<open>handleApiError\<close> reads first.
\<close>

fun error_name :: "orchestrator_error \<Rightarrow> string" where
  "error_name (ValidationError v) = ''ValidationError''"
| "error_name NoPriorSegment = ''NoPriorSegment''"
| "error_name (NotReady n) = ''NotReady''"
| "error_name IOFailure = ''IOFailure''"

definition http_error :: "orchestrator_error \<Rightarrow> js_error" where
  "http_error e = \<lparr>response_error = Some (error_name e), err_message = None\<rparr>"

definition server_generate ::
  "story \<Rightarrow> js_string \<Rightarrow> string option \<Rightarrow> bool \<Rightarrow> string \<Rightarrow> string \<Rightarrow>
   (js_error + generate_response) \<times> story" where
  "server_generate st prmpt img usePreviousFrame newId opId =
     (case addSegment st prmpt img usePreviousFrame newId opId of
        (Inl e, st') \<Rightarrow> (Inl (http_error e), st')
      | (Inr x, st') \<Rightarrow> (Inr \<lparr>resp_operation_id = op_id x\<rparr>, st'))"

definition server_stitch ::
  "(string \<Rightarrow> bytes option) \<Rightarrow> (bytes \<Rightarrow> string option) \<Rightarrow> story \<Rightarrow>
   (js_error + string) \<times> story" where
  "server_stitch fetch put st =
     (case stitch fetch put st of
        (Inl e, st') \<Rightarrow> (Inl (http_error e), st')
      | (Inr loc, st') \<Rightarrow> (Inr loc, st'))"


section \<open>Example stories and runs\<close>

text \<open>Concrete stories, server answers and runs, used where a statement is evaluated.\<close>

definition shuffled :: story where
  "shuffled =
     \<lparr>story_id = ''story'', title = js ''T'', description = [],
      segments =
        [\<lparr>seg_id = ''c'', sequence_number = 3, status = Generating, operation_id = Some ''op3'',
          original_prompt = js ''third'', video_url = None, frame_url = None\<rparr>,
         \<lparr>seg_id = ''a'', sequence_number = 1, status = Completed, operation_id = Some ''op1'',
          original_prompt = js ''first'', video_url = Some ''v1'', frame_url = Some ''f1''\<rparr>,
         \<lparr>seg_id = ''b'', sequence_number = 2, status = Completed, operation_id = Some ''op2'',
          original_prompt = js ''second'', video_url = Some ''v2'', frame_url = None\<rparr>],
      final_video_url = None, generation_data = None\<rparr>"

definition stitched :: story where
  "stitched =
     \<lparr>story_id = ''story'', title = js ''T'', description = [],
      segments =
        [\<lparr>seg_id = ''a'', sequence_number = 1, status = Completed, operation_id = Some ''op1'',
          original_prompt = js ''first'', video_url = Some ''v1'', frame_url = Some ''f1''\<rparr>],
      final_video_url = Some ''final.mp4'', generation_data = None\<rparr>"




definition brokenStory :: story where
  "brokenStory =
     \<lparr>story_id = ''story'', title = js ''T'', description = [],
      segments =
        [\<lparr>seg_id = ''c'', sequence_number = 3, status = Failed, operation_id = Some ''op3'',
          original_prompt = js ''third'', video_url = None, frame_url = None\<rparr>,
         \<lparr>seg_id = ''a'', sequence_number = 1, status = Completed, operation_id = Some ''op1'',
          original_prompt = js ''first'', video_url = Some ''v1'', frame_url = Some ''f1''\<rparr>,
         \<lparr>seg_id = ''b'', sequence_number = 2, status = Completed, operation_id = Some ''op2'',
          original_prompt = js ''second'', video_url = Some ''v2'', frame_url = Some ''f2''\<rparr>],
      final_video_url = Some ''old.mp4'', generation_data = None\<rparr>"

definition generatingStory :: story where
  "generatingStory =
     \<lparr>story_id = ''story'', title = js ''T'', description = [],
      segments =
        [\<lparr>seg_id = ''s1'', sequence_number = 1, status = Generating, operation_id = Some ''op1'',
          original_prompt = js ''first'', video_url = None, frame_url = None\<rparr>],
      final_video_url = None, generation_data = None\<rparr>"

definition stillGenerating :: generation_status where
  "stillGenerating =
     \<lparr>gs_status = Generating, gs_segment_id = Some ''s1'', gs_error = None, gs_video_url = None\<rparr>"

definition networkError :: js_error where
  "networkError = \<lparr>response_error = None, err_message = Some ''Network error''\<rparr>"

text \<open>
  A poller that only ever sees \<open>generating\<close> and is stopped by its timeout.
\<close>

definition timedOutRun :: provider where
  "timedOutRun =
     run [Load initialState ''story'' (Inr generatingStory),
          IntervalFires 0 (Inr stillGenerating),
          TimeoutFires 0] initialProvider"

text \<open>
  A story is loaded while its segment is generating, the first status request fails in
  transport, the story is loaded again, the second poller sees \<open>generating\<close>, and the
  timeout of the first poller fires; then the story is loaded once more.
\<close>

definition staleTimeoutRun :: provider where
  "staleTimeoutRun =
     run [Load initialState ''story'' (Inr generatingStory),
          IntervalFires 0 (Inl networkError),
          Load initialState ''story'' (Inr generatingStory),
          IntervalFires 1 (Inr stillGenerating),
          TimeoutFires 0] initialProvider"

definition duplicatePollRun :: provider where
  "duplicatePollRun = run [Load initialState ''story'' (Inr generatingStory)] staleTimeoutRun"

text \<open>A scene card whose operation has been polled once, and the card state before it.\<close>

definition polledOnce :: provider where
  "polledOnce =
     run [Generate initialState ''story'' (js ''a dog'') None False
            \<lparr>silent = True, targetSequence = Some 1, preserveWizard = False\<rparr>
            (Inr \<lparr>resp_operation_id = ''op1''\<rparr>),
          IntervalFires 0 (Inr stillGenerating)] initialProvider"

definition cards :: creator_page where
  "cards =
     \<lparr>storyPrompt = js ''a dog'', targetDurationSeconds = 120,
      cardGeneratingById = [''scene1'' \<mapsto> True], sceneOpById = [(''scene1'', ''op1'')],
      sceneVideoById = Map.empty, sceneProgressById = [''scene1'' \<mapsto> 10],
      sceneLastUpdateById = Map.empty\<rparr>"

text \<open>
  A story without segments, generation data with two scenes, and what the modelled
  backend answers when \<open>handleCreateVideos\<close> sends both scenes in \<open>whole\<close> mode.
\<close>

definition emptyStory :: story where
  "emptyStory =
     \<lparr>story_id = ''story'', title = js ''Dog'', description = js ''A dog.'', segments = [],
      final_video_url = None, generation_data = None\<rparr>"

definition twoScenes :: story_generation where
  "twoScenes =
     \<lparr>gen_id = Some ''g1'', gen_title = Some (js ''Dog''), premise = Some (js ''A dog.''),
      prompt = Some (js ''a dog''),
      scenes = [\<lparr>scene_id = ''scene1'', scene_sequence = 1, veo_prompt = Text (js ''a dog runs''),
                 visual_description = None\<rparr>,
                \<lparr>scene_id = ''scene2'', scene_sequence = 2, veo_prompt = Text (js ''it rains''),
                 visual_description = None\<rparr>]\<rparr>"

definition wholeView :: app_state where
  "wholeView = initialState\<lparr>currentStory := Some emptyStory, currentStoryGeneration := Some twoScenes\<rparr>"

definition afterFirstScene :: story where
  "afterFirstScene = snd (server_generate emptyStory (js ''a dog runs'') None False ''seg1'' ''op1'')"

definition wholeAnswers :: "nat \<Rightarrow> js_error + generate_response" where
  "wholeAnswers i =
     (if i = 0 then fst (server_generate emptyStory (js ''a dog runs'') None False ''seg1'' ''op1'')
      else fst (server_generate afterFirstScene (js ''it rains'') None True ''seg2'' ''op2''))"


section \<open>Properties\<close>

subsection \<open>Strings\<close>

lemma dropWhile_all_iff: "(\<forall>x\<in>set (dropWhile P xs). P x) \<longleftrightarrow> (\<forall>x\<in>set xs. P x)"
  by (induction xs) auto

lemma js_trim_empty_iff: "js_trim s = [] \<longleftrightarrow> (\<forall>c\<in>set s. isWhiteSpace c)"
  by (simp add: js_trim_def dropWhile_eq_Nil_conv dropWhile_all_iff)

lemma or_default_nonempty: "d \<noteq> [] \<Longrightarrow> or_default a d \<noteq> []"
  by (simp add: or_default_def split: option.splits)

lemma js_slice_nonempty: "s \<noteq> [] \<Longrightarrow> 0 < n \<Longrightarrow> js_slice 0 n s \<noteq> []"
  by (cases s) (auto simp: js_slice_def take_Cons')

subsection \<open>What each provider function touches\<close>

lemma effects_emit [simp]: "effects (emit e ctx) = effects ctx @ [e]"
  by (simp add: emit_def)

lemma effects_dispatch [simp]: "effects (dispatch a ctx) = effects ctx"
  by (simp add: dispatch_def)

lemma effects_handleApiError [simp]:
  "effects (handleApiError err m ctx) =
     effects ctx @ [ToastError (or_default (js_or (response_error err) (err_message err)) m)]"
  by (simp add: handleApiError_def Let_def)

lemma effects_startStatusPolling [simp]: "effects (startStatusPolling v opId ctx) = effects ctx"
  by (simp add: startStatusPolling_def)

lemma effects_clearInterval [simp]: "effects (clearInterval h ctx) = effects ctx"
  by (simp add: clearInterval_def)

lemma effects_activePolls_delete [simp]: "effects (activePolls_delete x ctx) = effects ctx"
  by (simp add: activePolls_delete_def)

lemma state_emit [simp]: "state (emit e ctx) = state ctx"
  by (simp add: emit_def)

lemma state_dispatch [simp]: "state (dispatch a ctx) = storyReducer (state ctx) a"
  by (simp add: dispatch_def)

lemma state_startStatusPolling [simp]: "state (startStatusPolling v opId ctx) = state ctx"
  by (simp add: startStatusPolling_def)

lemma state_clearInterval [simp]: "state (clearInterval h ctx) = state ctx"
  by (simp add: clearInterval_def)

lemma state_activePolls_delete [simp]: "state (activePolls_delete x ctx) = state ctx"
  by (simp add: activePolls_delete_def)

lemma resume_fold_keeps:
  "effects (fold (\<lambda>seg c. case operation_id seg of None \<Rightarrow> c
                 | Some opId \<Rightarrow> startStatusPolling v opId c) xs ctx) = effects ctx
   \<and> state (fold (\<lambda>seg c. case operation_id seg of None \<Rightarrow> c
                 | Some opId \<Rightarrow> startStatusPolling v opId c) xs ctx) = state ctx"
  by (induction xs arbitrary: ctx) (auto split: option.splits)

lemma effects_resumePollingForStory [simp]:
  "effects (resumePollingForStory v s ctx) = effects ctx"
  by (simp add: resumePollingForStory_def resume_fold_keeps)

lemma state_resumePollingForStory [simp]:
  "state (resumePollingForStory v s ctx) = state ctx"
  by (simp add: resumePollingForStory_def resume_fold_keeps)

lemma requests_simps [simp]:
  "requests [] = []"
  "requests (Request r # es) = r # requests es"
  "requests (ToastSuccess m # es) = requests es"
  "requests (ToastError m # es) = requests es"
  "requests (ConsoleError m # es) = requests es"
  "requests (Navigate m # es) = requests es"
  by (simp_all add: requests_def)

lemma requests_append [simp]: "requests (xs @ ys) = requests xs @ requests ys"
  by (simp add: requests_def)

subsection \<open>Blank prompts\<close>

text \<open>
  Claim C7. A prompt that is empty or consists only of white space is rejected by
  \<open>handleAddSegment\<close> and by \<open>handlePromptSubmit\<close> on the spot: the handler shows its
  error toast and returns, whatever the server would have answered; it changes nothing
  else, sends no request at all and so starts no generation and retries nothing.
\<close>

theorem blank_prompt_rejected:
  "(\<forall>c\<in>set p. isWhiteSpace c) \<Longrightarrow>
     handleAddSegment view storyId resp (pg\<lparr>newPrompt := p\<rparr>) ctx
       = (pg\<lparr>newPrompt := p\<rparr>, emit (ToastError ''Please enter a prompt for the new segment'') ctx)
   \<and> handlePromptSubmit resp' (cp\<lparr>storyPrompt := p\<rparr>) ctx
       = emit (ToastError ''Please enter a story prompt'') ctx
   \<and> requests (since ctx (snd (handleAddSegment view storyId resp (pg\<lparr>newPrompt := p\<rparr>) ctx))) = []
   \<and> requests (since ctx (handlePromptSubmit resp' (cp\<lparr>storyPrompt := p\<rparr>) ctx)) = []"
  by (simp add: handleAddSegment_def handlePromptSubmit_def js_trim_empty_iff since_def)

theorem blank_prompt_rejected_witness:
  "handleAddSegment initialState ''story'' (Inr \<lparr>resp_operation_id = ''op1''\<rparr>)
       \<lparr>newPrompt = [0x20, 0x9, 0x3000, 0xA], showAddSegment = True, isStitching = False\<rparr>
       initialProvider
     = (\<lparr>newPrompt = [0x20, 0x9, 0x3000, 0xA], showAddSegment = True, isStitching = False\<rparr>,
        initialProvider\<lparr>effects := [ToastError ''Please enter a prompt for the new segment'']\<rparr>)
   \<and> effects (handlePromptSubmit (Inl \<lparr>response_error = None, err_message = None\<rparr>)
        \<lparr>storyPrompt = [0x20, 0x9, 0x3000, 0xA], targetDurationSeconds = 120,
         cardGeneratingById = Map.empty, sceneOpById = [], sceneVideoById = Map.empty,
         sceneProgressById = Map.empty, sceneLastUpdateById = Map.empty\<rparr> initialProvider)
     = [ToastError ''Please enter a story prompt'']"
  using blank_prompt_rejected [of "[0x20, 0x9, 0x3000, 0xA]" initialState "''story''"
      "Inr \<lparr>resp_operation_id = ''op1''\<rparr>"
      "\<lparr>newPrompt = [], showAddSegment = True, isStitching = False\<rparr>" initialProvider
      "Inl \<lparr>response_error = None, err_message = None\<rparr>"
      "\<lparr>storyPrompt = [], targetDurationSeconds = 120,
         cardGeneratingById = Map.empty, sceneOpById = [], sceneVideoById = Map.empty,
         sceneProgressById = Map.empty, sceneLastUpdateById = Map.empty\<rparr>"]
  by (simp add: isWhiteSpace_def emit_def initialProvider_def)

subsection \<open>The title of a story created from generation data\<close>

lemma fallbackTitle_nonempty: "fallbackTitle g \<noteq> []"
  by (simp add: fallbackTitle_def js_slice_nonempty or_default_nonempty js_def)

lemma fallbackTitle_cases:
  "fallbackTitle (Some g) =
     (if js_trim (or_default (gen_title g) []) \<noteq> [] then js_trim (or_default (gen_title g) [])
      else if truthy (premise g) then take 60 (the (premise g))
      else if truthy (prompt g) then take 60 (the (prompt g))
      else js ''Untitled Story'')"
  by (auto simp: fallbackTitle_def rawTitle_def js_slice_def or_default_def js_or_def truthy_def js_def
           split: option.splits)

lemma createStoryFromGeneration_result:
  "fst (createStoryFromGeneration view (Some g) userId opts (Inr st) saved reloaded ctx) = Inr st"
  by (simp add: createStoryFromGeneration_def createStory_def Let_def split: sum.splits prod.splits)

lemma createStoryFromGeneration_requests:
  "requests (since ctx (snd (createStoryFromGeneration view (Some g) userId opts created saved reloaded ctx)))
     = POST_stories (fallbackTitle (Some g)) (or_default (premise g) []) userId #
       (case created of
          Inl e \<Rightarrow> []
        | Inr st \<Rightarrow> PUT_generation (story_id st) g #
                     (case saved of Inl e \<Rightarrow> [] | Inr u \<Rightarrow> [GET_story (story_id st)]))"
  by (simp add: createStoryFromGeneration_def createStory_def loadStory_def loadStory_begin_def
        loadStory_end_def Let_def since_def
      split: sum.splits prod.splits option.splits)

text \<open>
  Claim C10. The title \<open>createStoryFromGeneration\<close> computes is never empty: it is the
  trimmed generation title when that is non-empty, otherwise the first 60 code units of
  the premise, otherwise of the prompt, otherwise the literal \<open>Untitled Story\<close>. The one
  \<open>POST /stories\<close> request of a call carries that title, and once the server has
  created the story the call returns it, whether or not saving the generation data or
  reloading the story fails.
\<close>

theorem createStoryFromGeneration_title:
  "fallbackTitle sg \<noteq> []
   \<and> fallbackTitle (Some g) =
       (if js_trim (or_default (gen_title g) []) \<noteq> [] then js_trim (or_default (gen_title g) [])
        else if truthy (premise g) then take 60 (the (premise g))
        else if truthy (prompt g) then take 60 (the (prompt g))
        else js ''Untitled Story'')
   \<and> requests (since ctx
         (snd (createStoryFromGeneration view (Some g) userId opts created saved reloaded ctx)))
       = POST_stories (fallbackTitle (Some g)) (or_default (premise g) []) userId #
         (case created of
            Inl e \<Rightarrow> []
          | Inr st \<Rightarrow> PUT_generation (story_id st) g #
                       (case saved of Inl e \<Rightarrow> [] | Inr u \<Rightarrow> [GET_story (story_id st)]))
   \<and> fst (createStoryFromGeneration view (Some g) userId opts (Inr st) saved reloaded ctx) = Inr st"
  using fallbackTitle_nonempty [of sg] fallbackTitle_cases [of g]
    createStoryFromGeneration_requests [of ctx view g userId opts created saved reloaded]
    createStoryFromGeneration_result [of view g userId opts st saved reloaded ctx]
  by presburger

subsection \<open>The rendered segment list\<close>

lemma segmentsInOrder_sorted: "sorted (map sequence_number (segmentsInOrder s))"
  by (simp add: segmentsInOrder_def)

lemma segmentsInOrder_mset: "mset (segmentsInOrder s) = mset (segments s)"
  by (simp add: segmentsInOrder_def)

lemma segmentsInOrder_distinct:
  "distinct (map sequence_number (segmentsInOrder s)) \<longleftrightarrow> distinct (map sequence_number (segments s))"
proof -
  have "mset (map sequence_number (segmentsInOrder s)) = mset (map sequence_number (segments s))"
    by (simp add: segmentsInOrder_mset)
  then show ?thesis
    by (rule mset_eq_imp_distinct_iff)
qed

text \<open>
  Claim C8. The story view lists the segments of a story in ascending order of sequence
  number, and it lists exactly the segments of the story. Where the sequence numbers of
  the story are unique, as the data model requires, the listed sequence numbers are
  strictly increasing. (The sort cannot do more: by \<open>segmentsInOrder_distinct\<close> a
  repeated sequence number stays repeated.)
\<close>

theorem segmentsInOrder_ascending:
  "sorted (map sequence_number (segmentsInOrder s))
   \<and> mset (segmentsInOrder s) = mset (segments s)
   \<and> (distinct (map sequence_number (segments s))
        \<longrightarrow> sorted_wrt (<) (map sequence_number (segmentsInOrder s)))"
  using segmentsInOrder_sorted [of s] segmentsInOrder_mset [of s] segmentsInOrder_distinct [of s]
  by (simp add: strict_sorted_iff)

theorem segmentsInOrder_ascending_witness:
  "map seg_id (segmentsInOrder shuffled) = [''a'', ''b'', ''c'']
   \<and> sorted_wrt (<) (map sequence_number (segmentsInOrder shuffled))"
  using segmentsInOrder_ascending [of shuffled]
  by (simp add: shuffled_def segmentsInOrder_def)


subsection \<open>When the story view offers stitching\<close>

lemma canStitch_iff:
  "canStitch cs \<longleftrightarrow>
     (\<exists>s. cs = Some s \<and> (\<exists>x\<in>set (segments s). status x = Completed)
          \<and> \<not> truthy (final_video_url s))"
  by (cases cs) (auto simp: canStitch_def completedSegments_def filter_empty_conv)



lemma stitchStory_refused:
  "stitchStory view sid (Inl err) reload ctx = (r, ctx') \<Longrightarrow>
     r = Inl err \<and> currentStory (state ctx') = currentStory (state ctx)
     \<and> stories (state ctx') = stories (state ctx)
     \<and> requests (since ctx ctx') = [POST_stitch sid]
     \<and> error (state ctx') =
         Some (or_default (js_or (response_error err) (err_message err)) ''Failed to stitch story'')"
  by (auto simp: stitchStory_def Let_def since_def handleApiError_def)

text \<open>
  The story view hides the stitch button once the current story carries a final video;
  the action behind it is not guarded.
\<close>

lemma canStitch_stitched: "\<not> canStitch (Some stitched)"
  by (simp add: canStitch_def stitched_def truthy_def)


subsection \<open>Timers\<close>

lemma find_SomeD: "find P xs = Some x \<Longrightarrow> P x \<and> x \<in> set xs"
  by (induction xs) (auto split: if_splits)

lemma timers_ok_dispatch [simp]: "timers_ok (dispatch a ctx) = timers_ok ctx"
  by (simp add: timers_ok_def dispatch_def)

lemma timers_ok_emit [simp]: "timers_ok (emit e ctx) = timers_ok ctx"
  by (simp add: timers_ok_def emit_def)

lemma timers_ok_handleApiError [simp]: "timers_ok (handleApiError err m ctx) = timers_ok ctx"
  by (simp add: handleApiError_def Let_def)

lemma timers_ok_activePolls_delete [simp]: "timers_ok (activePolls_delete x ctx) = timers_ok ctx"
  by (simp add: timers_ok_def activePolls_delete_def)

lemma timers_ok_loadStory_begin [simp]: "timers_ok (loadStory_begin sid ctx) = timers_ok ctx"
  by (simp add: loadStory_begin_def)

lemma timers_ok_clearInterval: "timers_ok ctx \<Longrightarrow> timers_ok (clearInterval h ctx)"
  by (auto simp: timers_ok_def clearInterval_def)

lemma timers_ok_startStatusPolling:
  "timers_ok ctx \<Longrightarrow> timers_ok (startStatusPolling v opId ctx)"
  unfolding timers_ok_def startStatusPolling_def
  by (auto simp: less_Suc_eq)

lemma timers_ok_pollAnswer: "timers_ok ctx \<Longrightarrow> timers_ok (pollAnswer p resp ctx)"
  by (auto simp: pollAnswer_def Let_def timers_ok_clearInterval split: sum.splits option.splits)

lemma timers_ok_pollCallback: "timers_ok ctx \<Longrightarrow> timers_ok (pollCallback p resp ctx)"
  by (simp add: pollCallback_def pollRequest_def timers_ok_pollAnswer)

lemma timers_ok_intervalAsks: "timers_ok (intervalAsks h ctx) = timers_ok ctx"
  by (simp add: intervalAsks_def pollRequest_def split: option.splits)

lemma timers_ok_intervalFires: "timers_ok ctx \<Longrightarrow> timers_ok (intervalFires h resp ctx)"
  by (simp add: intervalFires_def timers_ok_pollCallback split: option.splits)

lemma timers_ok_timeoutFires: "timers_ok ctx \<Longrightarrow> timers_ok (timeoutFires h ctx)"
  unfolding timers_ok_def timeoutFires_def timeoutCallback_def activePolls_delete_def
    clearInterval_def
  by (auto split: option.splits dest!: find_SomeD) metis

lemma timers_ok_resume_fold:
  "timers_ok ctx \<Longrightarrow>
     timers_ok (fold (\<lambda>seg c. case operation_id seg of None \<Rightarrow> c
                      | Some opId \<Rightarrow> startStatusPolling v opId c) xs ctx)"
  by (induction xs arbitrary: ctx) (auto split: option.splits intro: timers_ok_startStatusPolling)

lemma timers_ok_resumePollingForStory:
  "timers_ok ctx \<Longrightarrow> timers_ok (resumePollingForStory v s ctx)"
  by (simp add: resumePollingForStory_def timers_ok_resume_fold)

lemma timers_ok_loadStory_end: "timers_ok ctx \<Longrightarrow> timers_ok (snd (loadStory_end v resp ctx))"
  by (auto simp: loadStory_end_def Let_def timers_ok_resumePollingForStory
        split: sum.splits option.splits)

lemma timers_ok_loadStory: "timers_ok ctx \<Longrightarrow> timers_ok (snd (loadStory v sid resp ctx))"
  by (simp add: loadStory_def timers_ok_loadStory_end)

lemma timers_ok_generateVideoSegment:
  "timers_ok ctx \<Longrightarrow> timers_ok (snd (generateVideoSegment v sid pr img up opts resp ctx))"
  by (auto simp: generateVideoSegment_def Let_def timers_ok_startStatusPolling split: sum.splits)

lemma timers_ok_stitchStory:
  "timers_ok ctx \<Longrightarrow> timers_ok (snd (stitchStory v sid resp reload ctx))"
proof -
  assume ok: "timers_ok ctx"
  have "timers_ok (snd (loadStory v sid reload
          (emit (Request (POST_stitch sid)) (dispatch CLEAR_ERROR (dispatch (SET_LOADING True) ctx)))))"
    using ok by (intro timers_ok_loadStory) simp
  then show ?thesis
    by (auto simp: stitchStory_def Let_def ok split: sum.splits prod.splits)
qed

lemma timers_ok_createStory:
  "timers_ok (snd (createStory ttl descr userId resp ctx)) = timers_ok ctx"
  by (simp add: createStory_def Let_def split: sum.splits)

lemma timers_ok_generateStoryFromPrompt:
  "timers_ok (snd (generateStoryFromPrompt prmpt n m resp ctx)) = timers_ok ctx"
  by (simp add: generateStoryFromPrompt_def Let_def split: sum.splits)

lemma timers_ok_createStoryFromGeneration:
  assumes ok: "timers_ok ctx"
  shows "timers_ok (snd (createStoryFromGeneration v g userId opts created saved reloaded ctx))"
proof (cases g)
  case None
  with ok show ?thesis
    by (simp add: createStoryFromGeneration_def Let_def)
next
  case (Some x)
  let ?c1 = "dispatch CLEAR_ERROR (if silent opts then ctx else dispatch (SET_LOADING True) ctx)"
  obtain r c2 where cr:
    "createStory (fallbackTitle (Some x)) (or_default (premise x) []) userId created ?c1 = (r, c2)"
    by (cases "createStory (fallbackTitle (Some x)) (or_default (premise x) []) userId created ?c1")
  from ok have "timers_ok ?c1" by simp
  with timers_ok_createStory [of "fallbackTitle (Some x)" "or_default (premise x) []" userId created ?c1] cr
  have ok2: "timers_ok c2" by simp
  show ?thesis
  proof (cases r)
    case (Inl err)
    with Some cr ok2 show ?thesis
      by (simp add: createStoryFromGeneration_def Let_def)
  next
    case (Inr st)
    let ?c3 = "emit (Request (PUT_generation (story_id st) x)) c2"
    from ok2 have "timers_ok (snd (loadStory v (story_id st) reloaded ?c3))"
      by (intro timers_ok_loadStory) simp
    with Some cr Inr ok2 show ?thesis
      by (auto simp: createStoryFromGeneration_def Let_def split: sum.splits prod.splits)
  qed
qed

lemma timers_ok_handleAddSegment:
  assumes ok: "timers_ok ctx"
  shows "timers_ok (snd (handleAddSegment v sid resp pg ctx))"
proof -
  from ok have "timers_ok (snd (generateVideoSegment v sid (newPrompt pg) None True no_options resp ctx))"
    by (rule timers_ok_generateVideoSegment)
  with ok show ?thesis
    by (auto simp: handleAddSegment_def split: sum.splits prod.splits)
qed

lemma timers_ok_generateAllScenes:
  "timers_ok ctx \<Longrightarrow> timers_ok (snd (generateAllScenes v sid i scs answers ctx))"
proof (induction scs arbitrary: i ctx)
  case Nil
  then show ?case by simp
next
  case (Cons sc rest)
  obtain r c where g:
    "generateVideoSegment v sid (promptField (veo_prompt sc)) None (0 < i) no_options (answers i) ctx
       = (r, c)"
    by (cases "generateVideoSegment v sid (promptField (veo_prompt sc)) None (0 < i) no_options
                 (answers i) ctx")
  with timers_ok_generateVideoSegment [OF Cons.prems,
         of v sid "promptField (veo_prompt sc)" None "0 < i" no_options "answers i"]
  have "timers_ok c" by simp
  with g Cons.IH [of c "Suc i"] show ?case
    by (auto split: sum.splits)
qed

lemma timers_ok_handleCreateVideos:
  assumes ok: "timers_ok ctx"
  shows "timers_ok (handleCreateVideos mode v created saved reloaded answers ctx)"
proof -
  let ?first = "case currentStory v of
                  None \<Rightarrow>
                    createStoryFromGeneration v (currentStoryGeneration v) ''anonymous''
                      no_options created saved reloaded ctx
                | Some s \<Rightarrow>
                    if story_id s \<noteq> [] then (Inr s, ctx)
                    else createStoryFromGeneration v (currentStoryGeneration v) ''anonymous''
                           no_options created saved reloaded ctx"
  obtain r c1 where f: "?first = (r, c1)"
    by (cases ?first)
  from ok timers_ok_createStoryFromGeneration
         [OF ok, of v "currentStoryGeneration v" "''anonymous''" no_options created saved reloaded] f
  have ok1: "timers_ok c1"
    by (auto split: option.splits if_splits)
  show ?thesis
  proof (cases r)
    case (Inl err)
    with f ok1 show ?thesis
      by (simp add: handleCreateVideos_def)
  next
    case (Inr st)
    show ?thesis
    proof (cases "currentStoryGeneration v")
      case None
      with f Inr ok1 show ?thesis
        by (simp add: handleCreateVideos_def split: create_mode.splits)
    next
      case (Some g)
      obtain r2 c2 where a: "generateAllScenes v (story_id st) 0 (scenes g) answers c1 = (r2, c2)"
        by (cases "generateAllScenes v (story_id st) 0 (scenes g) answers c1")
      with timers_ok_generateAllScenes [OF ok1, of v "story_id st" 0 "scenes g" answers]
      have "timers_ok c2" by simp
      with f Inr ok1 Some a show ?thesis
        by (simp add: handleCreateVideos_def split: create_mode.splits sum.splits)
    qed
  qed
qed

lemma timers_ok_handlePromptSubmit:
  "timers_ok (handlePromptSubmit resp pg ctx) = timers_ok ctx"
proof -
  have "timers_ok (snd (generateStoryFromPrompt (storyPrompt pg) (targetDurationSeconds pg) 8 resp
           (setStoryGenerationStep 2 ctx))) = timers_ok ctx"
    by (simp add: timers_ok_generateStoryFromPrompt setStoryGenerationStep_def)
  then show ?thesis
    by (auto simp: handlePromptSubmit_def setStoryGenerationStep_def split: sum.splits prod.splits)
qed

lemma timers_ok_step: "timers_ok ctx \<Longrightarrow> timers_ok (step ev ctx)"
  by (cases ev)
    (simp_all add: timers_ok_generateVideoSegment timers_ok_loadStory timers_ok_loadStory_end
       timers_ok_stitchStory timers_ok_intervalFires timers_ok_timeoutFires
       timers_ok_createStory timers_ok_createStoryFromGeneration
       timers_ok_generateStoryFromPrompt timers_ok_handleAddSegment
       timers_ok_handleCreateVideos timers_ok_handlePromptSubmit timers_ok_intervalAsks
       timers_ok_pollAnswer)

lemma timers_ok_initial: "timers_ok initialProvider"
  by (simp add: timers_ok_def initialProvider_def)

lemma timers_ok_run: "timers_ok ctx \<Longrightarrow> timers_ok (run evs ctx)"
  unfolding run_def by (induction evs arbitrary: ctx) (simp_all add: timers_ok_step)

lemma timeoutFires_touches:
  "state (timeoutFires h ctx) = state ctx \<and> effects (timeoutFires h ctx) = effects ctx
   \<and> (\<forall>q\<in>set (intervals (timeoutFires h ctx)). q \<in> set (intervals ctx))"
  by (auto simp: timeoutFires_def timeoutCallback_def activePolls_delete_def clearInterval_def
        split: option.splits)

lemma timeoutFires_live:
  assumes ok: "timers_ok ctx" and p: "p \<in> set (intervals ctx)"
  shows "period_ms p = 15000"
    and "\<exists>t\<in>set (timeouts ctx). clears t = timer p \<and> timeout_op t = poll_op p \<and> delay_ms t = 600000"
    and "\<forall>q\<in>set (intervals (timeoutFires (timer p) ctx)). timer q \<noteq> timer p"
    and "poll_op p \<notin> activePolls (timeoutFires (timer p) ctx)"
proof -
  from ok p show "period_ms p = 15000"
    by (simp add: timers_ok_def)
  from ok p obtain t where t: "t \<in> set (timeouts ctx)" "clears t = timer p"
    by (auto simp: timers_ok_def)
  with ok p have top: "timeout_op t = poll_op p" "delay_ms t = 600000"
    by (auto simp: timers_ok_def)
  with t show "\<exists>t\<in>set (timeouts ctx). clears t = timer p \<and> timeout_op t = poll_op p \<and> delay_ms t = 600000"
    by blast
  from t obtain t' where f: "find (\<lambda>t. clears t = timer p) (timeouts ctx) = Some t'"
    by (cases "find (\<lambda>t. clears t = timer p) (timeouts ctx)") (auto simp: find_None_iff)
  then have t': "t' \<in> set (timeouts ctx)" "clears t' = timer p"
    by (auto dest: find_SomeD)
  with ok p have "timeout_op t' = poll_op p"
    by (auto simp: timers_ok_def)
  with f t' show "\<forall>q\<in>set (intervals (timeoutFires (timer p) ctx)). timer q \<noteq> timer p"
    and "poll_op p \<notin> activePolls (timeoutFires (timer p) ctx)"
    by (auto simp: timeoutFires_def timeoutCallback_def activePolls_delete_def clearInterval_def)
qed

lemmas run_simps =
  run_def loadStory_def loadStory_begin_def loadStory_end_def dispatch_def emit_def
  initialProvider_def initialState_def resumePollingForStory_def resumable_def
  truthy_def startStatusPolling_def intervalFires_def pollCallback_def pollAnswer_def
  pollRequest_def intervalAsks_def activePolls_delete_def clearInterval_def timeoutFires_def timeoutCallback_def Let_def
  generateVideoSegment_def requests_def pollersOf_def

text \<open>
  Claim C4, as stated, fails: a poller that has only ever seen \<open>generating\<close> is stopped
  by its timeout, and afterwards the segment is still \<open>generating\<close> in the current story,
  the last recorded status of the operation is still \<open>generating\<close>, and the only requests
  ever sent are the load and the one status request: nothing marks the segment failed.
\<close>

theorem timeout_marks_nothing_counterexample:
  "intervals timedOutRun = [] \<and> activePolls timedOutRun = {}
   \<and> map_option (map status \<circ> segments) (currentStory (state timedOutRun)) = Some [Generating]
   \<and> map_option gs_status (generationStatus (state timedOutRun) ''op1'') = Some Generating
   \<and> requests (effects timedOutRun) = [GET_story ''story'', GET_generation_status ''op1'']"
  by (simp add: timedOutRun_def generatingStory_def stillGenerating_def run_simps)

text \<open>
  Claim C4, amended. Polling is bounded by a fixed timeout and does nothing else at the
  bound: in every provider reached by a run, each live poller fires every 15000 ms and
  has its own timeout of 600000 ms pending; when that timeout fires, the poller is no
  longer live and its operation is no longer in the active set, while the reducer state
  (segment statuses, recorded generation statuses, error) and the effects (requests,
  toasts) are exactly what they were.
\<close>

theorem poll_stops_at_timeout:
  "p \<in> set (intervals (run evs initialProvider)) \<Longrightarrow>
     period_ms p = 15000
     \<and> (\<exists>t\<in>set (timeouts (run evs initialProvider)).
           clears t = timer p \<and> timeout_op t = poll_op p \<and> delay_ms t = 600000)
     \<and> (\<forall>q\<in>set (intervals (timeoutFires (timer p) (run evs initialProvider))). timer q \<noteq> timer p)
     \<and> poll_op p \<notin> activePolls (timeoutFires (timer p) (run evs initialProvider))
     \<and> state (timeoutFires (timer p) (run evs initialProvider)) = state (run evs initialProvider)
     \<and> effects (timeoutFires (timer p) (run evs initialProvider)) = effects (run evs initialProvider)"
  using timeoutFires_live [OF timers_ok_run [OF timers_ok_initial, of evs], of p]
    timeoutFires_touches [of "timer p" "run evs initialProvider"]
  by blast

theorem poll_stops_at_timeout_witness:
  "intervals (run [Load initialState ''story'' (Inr generatingStory)] initialProvider)
     = [\<lparr>timer = 0, poll_op = ''op1'', closure_story = None, period_ms = 15000\<rparr>]
   \<and> intervals (timeoutFires 0 (run [Load initialState ''story'' (Inr generatingStory)] initialProvider)) = []
   \<and> ''op1'' \<notin> activePolls (timeoutFires 0
        (run [Load initialState ''story'' (Inr generatingStory)] initialProvider))"
  using poll_stops_at_timeout
    [of "\<lparr>timer = 0, poll_op = ''op1'', closure_story = None, period_ms = 15000\<rparr>"
        "[Load initialState ''story'' (Inr generatingStory)]"]
  by (simp add: generatingStory_def run_simps)


subsection \<open>One poller per operation\<close>

lemma startStatusPolling_active:
  "opId \<in> activePolls ctx \<Longrightarrow> startStatusPolling view opId ctx = ctx"
  by (simp add: startStatusPolling_def)

lemma startStatusPolling_fresh:
  "opId \<notin> activePolls ctx \<Longrightarrow>
     activePolls (startStatusPolling view opId ctx) = insert opId (activePolls ctx)
     \<and> map poll_op (intervals (startStatusPolling view opId ctx)) = map poll_op (intervals ctx) @ [opId]"
  by (simp add: startStatusPolling_def)

lemma startStatusPolling_ops:
  "set (map poll_op (intervals (startStatusPolling view opId ctx)))
     \<subseteq> insert opId (set (map poll_op (intervals ctx)))"
  by (auto simp: startStatusPolling_def)

lemma resume_fold_ops:
  "set (map poll_op (intervals (fold (\<lambda>seg c. case operation_id seg of None \<Rightarrow> c
                 | Some opId \<Rightarrow> startStatusPolling v opId c) xs ctx)))
     \<subseteq> set (map poll_op (intervals ctx)) \<union> {opId. \<exists>seg\<in>set xs. operation_id seg = Some opId}"
proof (induction xs arbitrary: ctx)
  case Nil
  then show ?case by simp
next
  case (Cons x xs)
  show ?case
  proof (cases "operation_id x")
    case None
    with Cons.IH [of ctx] show ?thesis by auto
  next
    case (Some opId)
    with Cons.IH [of "startStatusPolling v opId ctx"] startStatusPolling_ops [of v opId ctx]
    show ?thesis by auto
  qed
qed

lemma resumePollingForStory_ops:
  "set (map poll_op (intervals (resumePollingForStory view st ctx)))
     \<subseteq> set (map poll_op (intervals ctx))
        \<union> {opId. \<exists>seg\<in>set (segments st).
                   (status seg = Generating \<or> status seg = Publishing) \<and> opId \<noteq> []
                   \<and> operation_id seg = Some opId}"
proof -
  have "{opId. \<exists>seg\<in>set (filter resumable (segments st)). operation_id seg = Some opId}
          \<subseteq> {opId. \<exists>seg\<in>set (segments st).
                     (status seg = Generating \<or> status seg = Publishing) \<and> opId \<noteq> []
                     \<and> operation_id seg = Some opId}"
    by (auto simp: resumable_def truthy_def)
  with resume_fold_ops [of view "filter resumable (segments st)" ctx] show ?thesis
    unfolding resumePollingForStory_def by blast
qed

text \<open>
  Claim C9 does not hold of the code. The guard of \<open>startStatusPolling\<close> does what the
  claim says (\<open>startStatusPolling_active\<close>, \<open>startStatusPolling_fresh\<close>) and
  \<open>resumePollingForStory\<close> starts pollers only for generating or publishing segments that
  carry an operation id (\<open>resumePollingForStory_ops\<close>), but the timeout of a poller is
  not cancelled when the poller is cleared early, and when it fires it deletes the
  operation from the active set although a later poller of the same operation is live.
  In \<open>staleTimeoutRun\<close> poller 1 of \<open>op1\<close> is live while \<open>op1\<close> is not in the active
  set; the next load of the story starts poller 2 beside it.
\<close>

theorem duplicate_pollers_after_stale_timeout:
  "map timer (pollersOf ''op1'' staleTimeoutRun) = [1]
   \<and> ''op1'' \<notin> activePolls staleTimeoutRun
   \<and> map timer (pollersOf ''op1'' duplicatePollRun) = [1, 2]"
  by (simp add: duplicatePollRun_def staleTimeoutRun_def generatingStory_def networkError_def
        stillGenerating_def run_simps)


subsection \<open>What the scene loop of the creator page sends\<close>

lemma generateVideoSegment_effects_accepted:
  "requests (effects (snd (generateVideoSegment view sid p img up opts (Inr d) ctx)))
     = requests (effects ctx) @ [POST_generate sid p up (targetSequence opts) img]"
  by (simp add: generateVideoSegment_def Let_def)

lemma generateVideoSegment_refused:
  "generateVideoSegment view sid p img up opts (Inl err) ctx = (r, ctx') \<Longrightarrow>
     r = Inl err \<and> intervals ctx' = intervals ctx \<and> timeouts ctx' = timeouts ctx
     \<and> activePolls ctx' = activePolls ctx
     \<and> requests (since ctx ctx') = [POST_generate sid p up (targetSequence opts) img]
     \<and> error (state ctx') =
         Some (or_default (js_or (response_error err) (err_message err))
                 ''Failed to start video generation'')"
  by (cases "silent opts")
    (auto simp: generateVideoSegment_def Let_def since_def handleApiError_def dispatch_def emit_def)

lemma handleAddSegment_refused:
  "js_trim (newPrompt pg) \<noteq> [] \<Longrightarrow>
   handleAddSegment view sid (Inl err) pg ctx = (pg', ctx') \<Longrightarrow>
     pg' = pg \<and> intervals ctx' = intervals ctx \<and> activePolls ctx' = activePolls ctx
     \<and> requests (since ctx ctx') = [POST_generate sid (newPrompt pg) True None None]
     \<and> error (state ctx') =
         Some (or_default (js_or (response_error err) (err_message err))
                 ''Failed to start video generation'')"
  by (auto simp: handleAddSegment_def generateVideoSegment_def Let_def since_def handleApiError_def
        dispatch_def emit_def no_options_def)

text \<open>
  The client itself never looks at the status of the latest segment: as long as the
  server accepts, the \<open>whole\<close> mode loop sends one request per scene, each right after
  the answer to the one before, and every request after the first asks for the previous
  frame.
\<close>

lemma generateAllScenes_accepted:
  "\<forall>j. \<exists>d. answers j = Inr d \<Longrightarrow>
     fst (generateAllScenes view sid i scs answers ctx) = Inr ()
     \<and> requests (effects (snd (generateAllScenes view sid i scs answers ctx)))
         = requests (effects ctx) @
           map (\<lambda>(j, sc). POST_generate sid (promptField (veo_prompt sc)) (0 < j) None None)
               (zip [i ..< i + length scs] scs)"
proof (induction scs arbitrary: i ctx)
  case Nil
  then show ?case by simp
next
  case (Cons sc rest)
  from Cons.prems obtain d where d: "answers i = Inr d" by blast
  obtain r c where g: "generateVideoSegment view sid (promptField (veo_prompt sc)) None (0 < i)
                         no_options (Inr d) ctx = (r, c)"
    by (cases "generateVideoSegment view sid (promptField (veo_prompt sc)) None (0 < i)
                 no_options (Inr d) ctx")
  then have r: "r = Inr d"
    by (auto simp: generateVideoSegment_def Let_def)
  from generateVideoSegment_effects_accepted
         [of view sid "promptField (veo_prompt sc)" None "0 < i" no_options d ctx] g
  have e: "requests (effects c) = requests (effects ctx) @
             [POST_generate sid (promptField (veo_prompt sc)) (0 < i) None None]"
    by (simp add: no_options_def)
  have z: "[i ..< Suc (i + length rest)] = i # [Suc i ..< Suc (i + length rest)]"
    by (rule upt_conv_Cons) simp
  from Cons.IH [OF Cons.prems, of "Suc i" c] d g r e show ?case
    by (simp add: z del: upt_Suc)
qed


subsection \<open>The modelled backend\<close>

lemma find_first_sorted:
  "sorted (map f xs) \<Longrightarrow> find P xs = Some b \<Longrightarrow>
     b \<in> set xs \<and> P b \<and> (\<forall>x\<in>set xs. f x < f b \<longrightarrow> \<not> P x)"
proof (induction xs)
  case Nil
  then show ?case by simp
next
  case (Cons a as)
  show ?case
  proof (cases "P a")
    case True
    with Cons.prems show ?thesis by auto
  next
    case False
    with Cons.prems have "find P as = Some b" "sorted (map f as)" by simp_all
    with Cons.IH have "b \<in> set as \<and> P b \<and> (\<forall>x\<in>set as. f x < f b \<longrightarrow> \<not> P x)" by blast
    with False show ?thesis by auto
  qed
qed

lemma stitch_blocked:
  assumes "\<exists>x\<in>set (segments st). status x \<noteq> Completed"
  shows "\<exists>b\<in>set (segments st). status b \<noteq> Completed
           \<and> (\<forall>x\<in>set (segments st). sequence_number x < sequence_number b \<longrightarrow> status x = Completed)
           \<and> stitch fetch put st = (Inl (NotReady (sequence_number b)), st)"
proof -
  let ?segs = "sort_key sequence_number (segments st)"
  from assms have ne: "?segs \<noteq> []"
    by (metis empty_iff set_empty set_sort)
  from assms obtain b where f: "find (\<lambda>x. status x \<noteq> Completed) ?segs = Some b"
    by (cases "find (\<lambda>x. status x \<noteq> Completed) ?segs") (auto simp: find_None_iff)
  have "sorted (map sequence_number ?segs)" by simp
  from find_first_sorted [OF this f]
  have "b \<in> set (segments st)" "status b \<noteq> Completed"
    "\<forall>x\<in>set (segments st). sequence_number x < sequence_number b \<longrightarrow> status x = Completed"
    by auto
  moreover from ne f have "stitch fetch put st = (Inl (NotReady (sequence_number b)), st)"
    by (simp add: stitch_def Let_def)
  ultimately show ?thesis by blast
qed

text \<open>
  A segment appended by the modelled Orchestrator gets a sequence number above all
  existing ones, so unique sequence numbers stay unique.
\<close>

lemma nextSequence_above: "x \<in> set segs \<Longrightarrow> sequence_number x < nextSequence segs"
proof -
  assume x: "x \<in> set segs"
  then have "sequence_number x \<le> Max (set (map sequence_number segs))"
    by (intro Max_ge) auto
  with x show ?thesis
    by (auto simp: nextSequence_def)
qed

lemma addSegment_keeps_distinct:
  "distinct (map sequence_number (segments st)) \<Longrightarrow>
     distinct (map sequence_number (segments (snd (addSegment st p seed up newId opId))))"
  by (auto simp: addSegment_def store_append_def dest: nextSequence_above)






text \<open>
  Claim C1. On the modelled Stitcher: when some segment of the story is not completed,
  \<open>stitch\<close> refuses with \<open>NotReady\<close> naming the first blocking segment in sequence order
  (every segment with a smaller sequence number is completed) and returns the story as it
  was, final video included. The client's \<open>stitchStory\<close>, given that refusal, passes it
  on, has sent the stitch request and no reload, shows the error and leaves the current
  story untouched.
\<close>

theorem stitch_refuses_not_ready:
  "\<exists>x\<in>set (segments st). status x \<noteq> Completed \<Longrightarrow>
     \<exists>b\<in>set (segments st). status b \<noteq> Completed
       \<and> (\<forall>x\<in>set (segments st). sequence_number x < sequence_number b \<longrightarrow> status x = Completed)
       \<and> stitch fetch put st = (Inl (NotReady (sequence_number b)), st)
       \<and> server_stitch fetch put st = (Inl (http_error (NotReady (sequence_number b))), st)
       \<and> fst (stitchStory view sid (fst (server_stitch fetch put st)) reload ctx)
           = Inl (http_error (NotReady (sequence_number b)))
       \<and> currentStory (state (snd (stitchStory view sid (fst (server_stitch fetch put st)) reload ctx)))
           = currentStory (state ctx)
       \<and> requests (since ctx (snd (stitchStory view sid (fst (server_stitch fetch put st)) reload ctx)))
           = [POST_stitch sid]
       \<and> error (state (snd (stitchStory view sid (fst (server_stitch fetch put st)) reload ctx)))
           = Some ''NotReady''"
proof -
  assume "\<exists>x\<in>set (segments st). status x \<noteq> Completed"
  from stitch_blocked [OF this, of fetch put] obtain b where b:
    "b \<in> set (segments st)" "status b \<noteq> Completed"
    "\<forall>x\<in>set (segments st). sequence_number x < sequence_number b \<longrightarrow> status x = Completed"
    "stitch fetch put st = (Inl (NotReady (sequence_number b)), st)"
    by blast
  then have srv: "server_stitch fetch put st = (Inl (http_error (NotReady (sequence_number b))), st)"
    by (simp add: server_stitch_def)
  obtain r ctx' where c: "stitchStory view sid (Inl (http_error (NotReady (sequence_number b)))) reload ctx = (r, ctx')"
    by (cases "stitchStory view sid (Inl (http_error (NotReady (sequence_number b)))) reload ctx")
  from stitchStory_refused [OF c] have
    "r = Inl (http_error (NotReady (sequence_number b)))"
    "currentStory (state ctx') = currentStory (state ctx)"
    "requests (since ctx ctx') = [POST_stitch sid]"
    "error (state ctx') = Some ''NotReady''"
    by (simp_all add: http_error_def js_or_def truthy_def or_default_def)
  with b srv c show ?thesis
    by (intro bexI [of _ b]) simp_all
qed

theorem stitch_refuses_not_ready_witness:
  "stitch (\<lambda>u. Some []) (\<lambda>b. Some ''new.mp4'') brokenStory = (Inl (NotReady 3), brokenStory)
   \<and> final_video_url (snd (stitch (\<lambda>u. Some []) (\<lambda>b. Some ''new.mp4'') brokenStory)) = Some ''old.mp4''"
  using stitch_refuses_not_ready [of brokenStory "\<lambda>u. Some []" "\<lambda>b. Some ''new.mp4''"]
  by (simp add: brokenStory_def stitch_def)

lemma sorted_map_le_last:
  "sorted (map f xs) \<Longrightarrow> y \<in> set xs \<Longrightarrow> f y \<le> f (last xs)"
  by (induction xs) (auto split: if_splits)

lemma latestSegment_unique_max:
  assumes x: "x \<in> set (segments st)"
    and mx: "\<forall>y\<in>set (segments st). y \<noteq> x \<longrightarrow> sequence_number y < sequence_number x"
  shows "latestSegment st = x"
proof -
  let ?ys = "sort_key sequence_number (segments st)"
  from x have ne: "?ys \<noteq> []"
    by (metis empty_iff set_empty set_sort)
  then have l: "last ?ys \<in> set (segments st)"
    by (metis last_in_set set_sort)
  have "sequence_number x \<le> sequence_number (last ?ys)"
    using x by (intro sorted_map_le_last) simp_all
  with l mx show ?thesis
    unfolding latestSegment_def by force
qed

lemma addSegment_blocked:
  assumes "x \<in> set (segments st)" and "status x \<noteq> Completed"
    and "\<forall>y\<in>set (segments st). y \<noteq> x \<longrightarrow> sequence_number y < sequence_number x"
  shows "addSegment st p seed True newId opId =
           (Inl (ValidationError (if js_trim p = [] then EmptyPrompt else PriorSegmentNotCompleted)), st)"
  using assms latestSegment_unique_max [of x st]
  by (auto simp: addSegment_def)

text \<open>
  Claim C2. On the modelled Orchestrator: while the most recent segment of the story
  (the one with the highest sequence number) is not completed, \<open>addSegment\<close> with
  \<open>usePreviousFrame\<close> is refused with a validation error and the story is returned as it
  was: no segment is appended and no operation is submitted. The client's
  \<open>generateVideoSegment\<close>, given that refusal, passes it on, starts no poller and shows
  the error.
\<close>

theorem addSegment_refused_while_prior_incomplete:
  "x \<in> set (segments st) \<Longrightarrow> status x \<noteq> Completed \<Longrightarrow>
   \<forall>y\<in>set (segments st). y \<noteq> x \<longrightarrow> sequence_number y < sequence_number x \<Longrightarrow>
     addSegment st p seed True newId opId =
       (Inl (ValidationError (if js_trim p = [] then EmptyPrompt else PriorSegmentNotCompleted)), st)
     \<and> snd (server_generate st p seed True newId opId) = st
     \<and> fst (generateVideoSegment view sid p seed True opts
              (fst (server_generate st p seed True newId opId)) ctx)
         = Inl (http_error (ValidationError
                  (if js_trim p = [] then EmptyPrompt else PriorSegmentNotCompleted)))
     \<and> intervals (snd (generateVideoSegment view sid p seed True opts
              (fst (server_generate st p seed True newId opId)) ctx)) = intervals ctx
     \<and> activePolls (snd (generateVideoSegment view sid p seed True opts
              (fst (server_generate st p seed True newId opId)) ctx)) = activePolls ctx
     \<and> error (state (snd (generateVideoSegment view sid p seed True opts
              (fst (server_generate st p seed True newId opId)) ctx))) = Some ''ValidationError''"
proof -
  assume a: "x \<in> set (segments st)" "status x \<noteq> Completed"
    "\<forall>y\<in>set (segments st). y \<noteq> x \<longrightarrow> sequence_number y < sequence_number x"
  let ?e = "ValidationError (if js_trim p = [] then EmptyPrompt else PriorSegmentNotCompleted)"
  from addSegment_blocked [OF a, of p seed newId opId]
  have add: "addSegment st p seed True newId opId = (Inl ?e, st)" .
  then have srv: "server_generate st p seed True newId opId = (Inl (http_error ?e), st)"
    by (simp add: server_generate_def)
  obtain r ctx' where c:
    "generateVideoSegment view sid p seed True opts (Inl (http_error ?e)) ctx = (r, ctx')"
    by (cases "generateVideoSegment view sid p seed True opts (Inl (http_error ?e)) ctx")
  from generateVideoSegment_refused [OF c]
  have "r = Inl (http_error ?e)" "intervals ctx' = intervals ctx"
    "activePolls ctx' = activePolls ctx" "error (state ctx') = Some ''ValidationError''"
    by (simp_all add: http_error_def js_or_def truthy_def or_default_def)
  with add srv c show ?thesis by simp
qed

text \<open>
  The instance: \<open>handleCreateVideos\<close> in \<open>whole\<close> mode on a story without segments and
  two scenes, answered by the modelled backend. The first scene is accepted and is
  generating when the second request arrives; the second is refused, the loop ends in
  the handler's \<open>catch\<close>, and only the first operation is polled.
\<close>

theorem addSegment_refused_while_prior_incomplete_witness:
  "afterFirstScene =
     emptyStory\<lparr>segments :=
       [\<lparr>seg_id = ''seg1'', sequence_number = 1, status = Generating, operation_id = Some ''op1'',
         original_prompt = js ''a dog runs'', video_url = None, frame_url = None\<rparr>]\<rparr>
   \<and> addSegment afterFirstScene (js ''it rains'') None True ''seg2'' ''op2''
       = (Inl (ValidationError PriorSegmentNotCompleted), afterFirstScene)
   \<and> effects (handleCreateVideos Whole wholeView (Inl networkError) (Inl networkError)
         (Inl networkError) wholeAnswers initialProvider)
       = [Request (POST_generate ''story'' (js ''a dog runs'') False None None),
          ToastSuccess ''Video generation started!'',
          Request (POST_generate ''story'' (js ''it rains'') True None None),
          ToastError ''ValidationError'',
          ConsoleError ''Error creating videos:'']
   \<and> map poll_op (intervals (handleCreateVideos Whole wholeView (Inl networkError)
         (Inl networkError) (Inl networkError) wholeAnswers initialProvider)) = [''op1'']"
proof -
  have af: "afterFirstScene =
     emptyStory\<lparr>segments :=
       [\<lparr>seg_id = ''seg1'', sequence_number = 1, status = Generating, operation_id = Some ''op1'',
         original_prompt = js ''a dog runs'', video_url = None, frame_url = None\<rparr>]\<rparr>"
    by (simp add: afterFirstScene_def server_generate_def addSegment_def emptyStory_def js_def
          js_trim_def isWhiteSpace_def store_append_def nextSequence_def)
  have tr: "js_trim (js ''it rains'') \<noteq> []" "js_trim (js ''a dog runs'') \<noteq> []"
    by (simp_all add: js_def js_trim_def isWhiteSpace_def)
  from addSegment_refused_while_prior_incomplete
    [of "\<lparr>seg_id = ''seg1'', sequence_number = 1, status = Generating, operation_id = Some ''op1'',
         original_prompt = js ''a dog runs'', video_url = None, frame_url = None\<rparr>"
        afterFirstScene "js ''it rains''" None "''seg2''" "''op2''"] tr
  have refused: "addSegment afterFirstScene (js ''it rains'') None True ''seg2'' ''op2''
       = (Inl (ValidationError PriorSegmentNotCompleted), afterFirstScene)"
    by (simp add: af)
  have a0: "wholeAnswers 0 = Inr \<lparr>resp_operation_id = ''op1''\<rparr>"
    using tr by (simp add: wholeAnswers_def server_generate_def addSegment_def emptyStory_def)
  have a1: "wholeAnswers (Suc 0) = Inl (http_error (ValidationError PriorSegmentNotCompleted))"
    using refused by (simp add: wholeAnswers_def server_generate_def)
  show ?thesis
    using af refused
    by (simp add: handleCreateVideos_def wholeView_def initialState_def emptyStory_def twoScenes_def
          a0 a1 generateVideoSegment_def no_options_def Let_def
          startStatusPolling_def initialProvider_def handleApiError_def http_error_def
          js_or_def or_default_def truthy_def dispatch_def emit_def)
qed

text \<open>
  Claim C5. On the modelled Orchestrator: for a story without segments and a prompt that
  is not blank, \<open>addSegment\<close> with \<open>usePreviousFrame\<close> fails with \<open>NoPriorSegment\<close> and
  returns the story as it was, so nothing is submitted for generation. On the client
  side \<open>handleAddSegment\<close> has sent its one request with \<open>use_previous_frame\<close> set, as it
  always does; given the refusal it keeps the form as it was, starts no poller and shows
  the error.
\<close>

theorem addSegment_no_prior_segment:
  "segments st = [] \<Longrightarrow> js_trim p \<noteq> [] \<Longrightarrow>
     addSegment st p seed True newId opId = (Inl NoPriorSegment, st)
     \<and> server_generate st p None True newId opId = (Inl (http_error NoPriorSegment), st)
     \<and> fst (handleAddSegment view (story_id st) (fst (server_generate st p None True newId opId))
              (pg\<lparr>newPrompt := p\<rparr>) ctx) = pg\<lparr>newPrompt := p\<rparr>
     \<and> requests (since ctx (snd (handleAddSegment view (story_id st)
              (fst (server_generate st p None True newId opId)) (pg\<lparr>newPrompt := p\<rparr>) ctx)))
         = [POST_generate (story_id st) p True None None]
     \<and> intervals (snd (handleAddSegment view (story_id st)
              (fst (server_generate st p None True newId opId)) (pg\<lparr>newPrompt := p\<rparr>) ctx))
         = intervals ctx
     \<and> error (state (snd (handleAddSegment view (story_id st)
              (fst (server_generate st p None True newId opId)) (pg\<lparr>newPrompt := p\<rparr>) ctx)))
         = Some ''NoPriorSegment''"
proof -
  assume a: "segments st = []" "js_trim p \<noteq> []"
  then have add: "addSegment st p seed True newId opId = (Inl NoPriorSegment, st)" for seed
    by (simp add: addSegment_def)
  then have srv: "server_generate st p None True newId opId = (Inl (http_error NoPriorSegment), st)"
    by (simp add: server_generate_def)
  obtain pg' ctx' where c:
    "handleAddSegment view (story_id st) (Inl (http_error NoPriorSegment)) (pg\<lparr>newPrompt := p\<rparr>) ctx
       = (pg', ctx')"
    by (cases "handleAddSegment view (story_id st) (Inl (http_error NoPriorSegment))
                 (pg\<lparr>newPrompt := p\<rparr>) ctx")
  from a have "js_trim (newPrompt (pg\<lparr>newPrompt := p\<rparr>)) \<noteq> []" by simp
  from handleAddSegment_refused [OF this c]
  have "pg' = pg\<lparr>newPrompt := p\<rparr>" "intervals ctx' = intervals ctx"
    "requests (since ctx ctx') = [POST_generate (story_id st) p True None None]"
    "error (state ctx') = Some ''NoPriorSegment''"
    by (simp_all add: http_error_def js_or_def truthy_def or_default_def)
  with add srv c show ?thesis by simp
qed

theorem addSegment_no_prior_segment_witness:
  "addSegment emptyStory (js ''a dog'') None True ''a'' ''op1'' = (Inl NoPriorSegment, emptyStory)"
  using addSegment_no_prior_segment [of emptyStory "js ''a dog''" None "''a''" "''op1''"]
  by (simp add: emptyStory_def js_def js_trim_def isWhiteSpace_def)

subsection \<open>What is reported about an operation\<close>

text \<open>
  Only the answer to a status request writes the recorded status of an operation: every
  other function of the provider and every handler leaves \<open>generationStatus\<close> as it is.
\<close>

lemma recorded_reducer:
  "generationStatus (storyReducer s a) =
     (case a of UPDATE_GENERATION_STATUS k v \<Rightarrow> (generationStatus s)(k \<mapsto> v)
              | _ \<Rightarrow> generationStatus s)"
  by (cases a) simp_all

lemma recorded_handleApiError [simp]:
  "generationStatus (state (handleApiError err m ctx)) = generationStatus (state ctx)"
  by (simp add: handleApiError_def Let_def)

lemma recorded_loadStory_begin [simp]:
  "generationStatus (state (loadStory_begin sid ctx)) = generationStatus (state ctx)"
  by (simp add: loadStory_begin_def)












lemma recorded_intervalAsks [simp]:
  "generationStatus (state (intervalAsks h ctx)) = generationStatus (state ctx)"
  by (simp add: intervalAsks_def pollRequest_def split: option.splits)

lemma recorded_timeoutFires [simp]:
  "generationStatus (state (timeoutFires h ctx)) = generationStatus (state ctx)"
  by (simp add: timeoutFires_def timeoutCallback_def split: option.splits)







text \<open>
  The callback of the interval: what it records and which intervals it leaves.
\<close>

lemma pollCallback_status:
  "generationStatus (state (pollCallback p (Inr st) ctx)) = (generationStatus (state ctx))(poll_op p \<mapsto> st)
   \<and> generationStatus (state (pollCallback p (Inl e) ctx)) = generationStatus (state ctx)"
  by (simp add: pollCallback_def pollAnswer_def pollRequest_def Let_def loadStory_begin_def
        split: option.splits)

lemma pollCallback_intervals:
  "intervals (pollCallback p (Inr st) ctx) =
     (if gs_status st = Completed \<or> gs_status st = Failed
      then filter (\<lambda>q. timer q \<noteq> timer p) (intervals ctx) else intervals ctx)"
  by (simp add: pollCallback_def pollAnswer_def pollRequest_def Let_def loadStory_begin_def
        dispatch_def emit_def activePolls_delete_def clearInterval_def split: option.splits)



text \<open>
  The storyboard page derives its progress bar from the recorded status: 100 on
  \<open>completed\<close>, and on each pass over a \<open>generating\<close> or \<open>publishing\<close> status 12
  more than before (starting from 10), capped at 90.
\<close>

lemma sceneStatusStep_progress:
  "gs opId = Some seen \<Longrightarrow>
     sceneProgressById (sceneStatusStep gs cs now (sceneId, opId) pg) sceneId =
       (if gs_status seen = Completed then Some 100
        else if gs_status seen = Generating \<or> gs_status seen = Publishing
          then Some (min 90 ((case sceneProgressById pg sceneId of
                                None \<Rightarrow> 10 | Some v \<Rightarrow> if v = 0 then 10 else v) + 12))
        else sceneProgressById pg sceneId)"
  by (auto simp: sceneStatusStep_def Let_def split: option.splits)

lemma storyboard_progress_after_one_poll:
  "sceneProgressById
     (sceneStatusEffect (generationStatus (state polledOnce)) (currentStory (state polledOnce)) 0 cards)
     ''scene1'' = Some 22"
  by (simp add: polledOnce_def cards_def stillGenerating_def sceneStatusEffect_def
        sceneStatusStep_def run_simps)


end
